theory Spec2Isabelle
  imports Complex_Main
begin

section \<open>JavaScript values\<close>

text \<open>
  A JavaScript number is modelled as an exact rational, with \<open>None\<close> for \<open>NaN\<close>
  (the time value of an Invalid Date, and whatever is computed from it). Every
  comparison with \<open>NaN\<close> is false and every arithmetic operation on it gives \<open>NaN\<close>.
  Rounding error of the binary floating point is not modelled; the infinities do
  not arise, since every divisor in the code below is a non-zero constant or a
  count that was just incremented.
\<close>

type_synonym jsnum = "rat option"

definition num_lt :: "jsnum \<Rightarrow> jsnum \<Rightarrow> bool" where
  "num_lt a b = (case a of None \<Rightarrow> False | Some x \<Rightarrow> (case b of None \<Rightarrow> False | Some y \<Rightarrow> x < y))"

definition num_le :: "jsnum \<Rightarrow> jsnum \<Rightarrow> bool" where
  "num_le a b = (case a of None \<Rightarrow> False | Some x \<Rightarrow> (case b of None \<Rightarrow> False | Some y \<Rightarrow> x \<le> y))"

definition num_gt :: "jsnum \<Rightarrow> jsnum \<Rightarrow> bool" where
  "num_gt a b = num_lt b a"

definition num_ge :: "jsnum \<Rightarrow> jsnum \<Rightarrow> bool" where
  "num_ge a b = num_le b a"

definition num_add :: "jsnum \<Rightarrow> jsnum \<Rightarrow> jsnum" where
  "num_add a b = (case a of None \<Rightarrow> None | Some x \<Rightarrow> (case b of None \<Rightarrow> None | Some y \<Rightarrow> Some (x + y)))"

definition num_sub :: "jsnum \<Rightarrow> jsnum \<Rightarrow> jsnum" where
  "num_sub a b = (case a of None \<Rightarrow> None | Some x \<Rightarrow> (case b of None \<Rightarrow> None | Some y \<Rightarrow> Some (x - y)))"

definition num_mul :: "jsnum \<Rightarrow> jsnum \<Rightarrow> jsnum" where
  "num_mul a b = (case a of None \<Rightarrow> None | Some x \<Rightarrow> (case b of None \<Rightarrow> None | Some y \<Rightarrow> Some (x * y)))"

text \<open>Division: by zero it is \<open>NaN\<close> here (JavaScript gives an infinity or \<open>NaN\<close>).\<close>

definition num_div :: "jsnum \<Rightarrow> jsnum \<Rightarrow> jsnum" where
  "num_div a b = (case a of None \<Rightarrow> None | Some x \<Rightarrow>
     (case b of None \<Rightarrow> None | Some y \<Rightarrow> if y = 0 then None else Some (x / y)))"

text \<open>The remainder \<open>a % b\<close> has the sign of the dividend: the quotient is truncated.\<close>

definition truncate_rat :: "rat \<Rightarrow> int" where
  "truncate_rat x = (if x < 0 then \<lceil>x\<rceil> else \<lfloor>x\<rfloor>)"

definition num_mod :: "jsnum \<Rightarrow> jsnum \<Rightarrow> jsnum" where
  "num_mod a b = (case a of None \<Rightarrow> None | Some x \<Rightarrow>
     (case b of None \<Rightarrow> None | Some y \<Rightarrow>
        if y = 0 then None else Some (x - y * of_int (truncate_rat (x / y)))))"

definition Math_ceil :: "jsnum \<Rightarrow> jsnum" where
  "Math_ceil a = (case a of None \<Rightarrow> None | Some x \<Rightarrow> Some (of_int \<lceil>x\<rceil>))"

text \<open>\<open>Math.round\<close> rounds a half towards plus infinity.\<close>

definition Math_round :: "jsnum \<Rightarrow> jsnum" where
  "Math_round a = (case a of None \<Rightarrow> None | Some x \<Rightarrow> Some (of_int \<lfloor>x + 1 / 2\<rfloor>))"

abbreviation Num :: "rat \<Rightarrow> jsnum" where
  "Num x \<equiv> Some x"

text \<open>Truthiness of a number: \<open>undefined\<close> (absent), \<open>0\<close> and \<open>NaN\<close> are falsy.\<close>

definition truthy_num :: "rat option \<Rightarrow> bool" where
  "truthy_num a = (case a of None \<Rightarrow> False | Some x \<Rightarrow> x \<noteq> 0)"

text \<open>Truthiness of a string: \<open>undefined\<close> and the empty string are falsy.\<close>

definition truthy_str :: "string option \<Rightarrow> bool" where
  "truthy_str a = (case a of None \<Rightarrow> False | Some s \<Rightarrow> s \<noteq> [])"

text \<open>
  A string is the list of the bytes of its UTF-8 text. \<open>String.prototype.trim\<close> strips
  white space and line terminators from both ends: the six ASCII ones, and U+00A0,
  U+1680, U+2000 to U+200A, U+2028, U+2029, U+202F, U+205F, U+3000 and U+FEFF, each
  a sequence of two or three bytes here.
\<close>

definition whiteSpace :: "string list" where
  "whiteSpace =
     [[CHR 0x20], [CHR 0x09], [CHR 0x0A], [CHR 0x0B], [CHR 0x0C], [CHR 0x0D],
      [CHR 0xC2, CHR 0xA0],
      [CHR 0xE1, CHR 0x9A, CHR 0x80],
      [CHR 0xE2, CHR 0x80, CHR 0x80], [CHR 0xE2, CHR 0x80, CHR 0x81],
      [CHR 0xE2, CHR 0x80, CHR 0x82], [CHR 0xE2, CHR 0x80, CHR 0x83],
      [CHR 0xE2, CHR 0x80, CHR 0x84], [CHR 0xE2, CHR 0x80, CHR 0x85],
      [CHR 0xE2, CHR 0x80, CHR 0x86], [CHR 0xE2, CHR 0x80, CHR 0x87],
      [CHR 0xE2, CHR 0x80, CHR 0x88], [CHR 0xE2, CHR 0x80, CHR 0x89],
      [CHR 0xE2, CHR 0x80, CHR 0x8A],
      [CHR 0xE2, CHR 0x80, CHR 0xA8], [CHR 0xE2, CHR 0x80, CHR 0xA9],
      [CHR 0xE2, CHR 0x80, CHR 0xAF],
      [CHR 0xE2, CHR 0x81, CHR 0x9F],
      [CHR 0xE3, CHR 0x80, CHR 0x80],
      [CHR 0xEF, CHR 0xBB, CHR 0xBF]]"

text \<open>
  \<open>stripStart ws n s\<close> removes from the front of \<open>s\<close> the sequences of \<open>ws\<close>, at most \<open>n\<close>
  of them; a string has no more of them than bytes.
\<close>

fun stripStart :: "string list \<Rightarrow> nat \<Rightarrow> string \<Rightarrow> string" where
  "stripStart ws 0 s = s"
| "stripStart ws (Suc n) s =
     (case find (\<lambda>w. w \<noteq> [] \<and> take (length w) s = w) ws of
        None \<Rightarrow> s
      | Some w \<Rightarrow> stripStart ws n (drop (length w) s))"

definition trim :: "string \<Rightarrow> string" where
  "trim s =
     (let t = stripStart whiteSpace (length s) s
      in rev (stripStart (map rev whiteSpace) (length t) (rev t)))"

section \<open>Dates and times\<close>

text \<open>
  The time value of a valid \<open>Date\<close> is an integer number of milliseconds since the
  epoch. The server's local time is a fixed offset \<open>tz\<close> east of UTC, in
  milliseconds (no daylight saving change is modelled).
\<close>

type_synonym instant = int

definition msPerMinute :: int where "msPerMinute = 1000 * 60"
definition msPerHour :: int where "msPerHour = 1000 * 60 * 60"
definition msPerDay :: int where "msPerDay = 1000 * 60 * 60 * 24"

text \<open>
  A time of day as its string spells it: \<open>HM h m\<close> is \<open>HH:MM\<close> with a two-digit hour,
  \<open>H1M h m\<close> is \<open>H:MM\<close> with a one-digit hour (the format of the schema admits both).
\<close>

datatype clock = HM nat nat | H1M nat nat

fun clockMs :: "clock \<Rightarrow> int" where
  "clockMs (HM h m) = int h * msPerHour + int m * msPerMinute"
| "clockMs (H1M h m) = int h * msPerHour + int m * msPerMinute"

text \<open>
  A date as a caller hands it over: the string \<open>YYYY-MM-DD\<close> of a request (the
  calendar day, counted in days since the epoch), or a \<open>Date\<close> object read from a
  stored booking.
\<close>

datatype dateArg = DateString int | DateObject instant

text \<open>
  \<open>new Date(d)\<close>: a date-only string is UTC midnight of that day; a \<open>Date\<close> is copied.
\<close>

fun newDate :: "dateArg \<Rightarrow> instant" where
  "newDate (DateString d) = d * msPerDay"
| "newDate (DateObject i) = i"

text \<open>
  \<open>new Date(`${d}T${t}`)\<close>: with a date-only string this is the ISO form
  \<open>YYYY-MM-DDTHH:MM\<close>, read in local time; hours have two digits and run to 23,
  minutes run to 59, and \<open>24:00\<close> is the end of the day. With a one-digit hour the
  text is not of this form and is not a date. A \<open>Date\<close> object is interpolated by its
  \<open>toString\<close>, and that text followed by \<open>T\<close> and a time is not a date either. What is
  not a date gives an Invalid Date, whose time value is \<open>NaN\<close>.
\<close>

fun validClock :: "clock \<Rightarrow> bool" where
  "validClock (HM h m) = (h \<le> 23 \<and> m \<le> 59 \<or> h = 24 \<and> m = 0)"
| "validClock (H1M h m) = False"

fun newDateT :: "int \<Rightarrow> dateArg \<Rightarrow> clock \<Rightarrow> jsnum" where
  "newDateT tz (DateString d) t =
     (if validClock t then Num (of_int (d * msPerDay + clockMs t - tz)) else None)"
| "newDateT tz (DateObject i) t = None"

text \<open>
  \<open>new Date(`${date.toDateString()} ${t}`)\<close>: the local calendar day of the stored
  instant, at the time of day \<open>t\<close> in local time (this form is read with one or
  two digits of the hour). It is taken of stored bookings, whose times have the
  format the schema demands.
\<close>

definition localDay :: "int \<Rightarrow> instant \<Rightarrow> int" where
  "localDay tz i = (i + tz) div msPerDay"

definition dateAtTime :: "int \<Rightarrow> instant \<Rightarrow> clock \<Rightarrow> instant" where
  "dateAtTime tz date t = localDay tz date * msPerDay + clockMs t - tz"

section \<open>utils/validateBooking.js\<close>

record duration =
  hours :: jsnum
  days :: jsnum

record validation =
  isValid :: bool
  errors :: "string list"

record dateValidation = validation +
  duration :: duration

definition validateBookingDates ::
  "instant \<Rightarrow> int \<Rightarrow> dateArg \<Rightarrow> dateArg \<Rightarrow> clock \<Rightarrow> clock \<Rightarrow> dateValidation" where
  "validateBookingDates now tz startDate endDate startTime endTime =
    (let start = newDateT tz startDate startTime;
         end = newDateT tz endDate endTime;
         errors1 = (if num_le start (Num (of_int now))
                    then [''Start date and time must be in the future''] else []);
         errors2 = errors1 @ (if num_le end start
                    then [''End date and time must be after start date and time''] else []);
         durationHours = num_div (num_sub end start) (Num (of_int (1000 * 60 * 60)));
         errors3 = errors2 @ (if num_lt durationHours (Num 1)
                    then [''Booking must be at least 1 hour long''] else []);
         durationDays = num_div durationHours (Num 24);
         errors4 = errors3 @ (if num_gt durationDays (Num 30)
                    then [''Booking cannot be more than 30 days long''] else [])
     in \<lparr> isValid = (length errors4 = 0),
          errors = errors4,
          duration = \<lparr> hours = Math_ceil durationHours, days = Math_ceil durationDays \<rparr> \<rparr>)"

text \<open>The rate card of a car (the \<open>pricing\<close> sub-document of models/Car.js).\<close>

record pricing =
  hourly :: rat
  daily :: rat
  weekly :: "rat option"
  monthly :: "rat option"
  currency :: string

text \<open>
  What \<open>insuranceRates[insuranceType]\<close> reads from the object literal: one of its three
  numbers, a property it inherits from \<open>Object.prototype\<close> (a function or an object:
  truthy, and \<open>NaN\<close> as a factor), or \<open>undefined\<close>.
\<close>

datatype property = PUndefined | PNumber rat | PInherited

definition objectPrototypeKeys :: "string list" where
  "objectPrototypeKeys =
     [''constructor'', ''hasOwnProperty'', ''isPrototypeOf'', ''propertyIsEnumerable'',
      ''toLocaleString'', ''toString'', ''valueOf'', ''__proto__'', ''__defineGetter__'',
      ''__defineSetter__'', ''__lookupGetter__'', ''__lookupSetter__'']"

definition insuranceRates :: "string \<Rightarrow> property" where
  "insuranceRates t =
     (if t = ''basic'' then PNumber (5 / 100)
      else if t = ''comprehensive'' then PNumber (10 / 100)
      else if t = ''premium'' then PNumber (15 / 100)
      else if t \<in> set objectPrototypeKeys then PInherited
      else PUndefined)"

fun truthy_property :: "property \<Rightarrow> bool" where
  "truthy_property PUndefined = False"
| "truthy_property (PNumber r) = (r \<noteq> 0)"
| "truthy_property PInherited = True"

fun toNumber :: "property \<Rightarrow> jsnum" where
  "toNumber PUndefined = None"
| "toNumber (PNumber r) = Num r"
| "toNumber PInherited = None"

record priceBreakdown =
  basePrice :: jsnum
  insuranceCost :: jsnum
  taxes :: jsnum
  fees :: jsnum
  totalPrice :: jsnum
  priceCurrency :: string

text \<open>
  \<open>Math.round(x * 100) / 100\<close>, on the exact value of \<open>x\<close>: where the binary value of
  a price falls just below a half cent that its exact value reaches, the code
  rounds down and this rounds up.
\<close>

definition round2 :: "jsnum \<Rightarrow> jsnum" where
  "round2 x = num_div (Math_round (num_mul x (Num 100))) (Num 100)"

definition calculateBookingPrice :: "pricing \<Rightarrow> duration \<Rightarrow> string \<Rightarrow> priceBreakdown" where
  "calculateBookingPrice p d insuranceType =
    (let hours = hours d; days = days d;
         basePrice =
           (if num_ge days (Num 7) then
              (let weeks = Math_ceil (num_div days (Num 7))
               in if truthy_num (weekly p)
                  then num_mul weeks (weekly p)
                  else num_mul (num_mul weeks (Num 7)) (Num (daily p)))
            else if num_ge days (Num 1) then
              (let basePrice = num_mul days (Num (daily p));
                   extraHours = num_mod hours (Num 24)
               in if num_gt extraHours (Num 0)
                  then num_add basePrice (num_mul extraHours (Num (hourly p)))
                  else basePrice)
            else num_mul hours (Num (hourly p)));
         rate = (if truthy_property (insuranceRates insuranceType)
                 then insuranceRates insuranceType else insuranceRates ''basic'');
         insuranceCost = num_mul basePrice (toNumber rate);
         taxRate = Num (10 / 100);
         taxes = num_mul (num_add basePrice insuranceCost) taxRate;
         fees = (if num_ge days (Num 1) then Num 25 else Num 10);
         totalPrice = num_add (num_add (num_add basePrice insuranceCost) taxes) fees
     in \<lparr> basePrice = round2 basePrice,
          insuranceCost = round2 insuranceCost,
          taxes = round2 taxes,
          fees = fees,
          totalPrice = round2 totalPrice,
          priceCurrency = currency p \<rparr>)"

text \<open>The test \<open>!s || s.trim().length === 0\<close> of the two validators below.\<close>

definition blank :: "string option \<Rightarrow> bool" where
  "blank s = (case s of None \<Rightarrow> True | Some x \<Rightarrow> \<not> truthy_str (Some x) \<or> length (trim x) = 0)"

text \<open>
  \<open>setDate(getDate() + 30)\<close> moves the local calendar date by 30 days: with the fixed
  local offset of this model, by 30 times 24 hours.
\<close>

definition validateDriverLicense :: "instant \<Rightarrow> string option \<Rightarrow> instant option \<Rightarrow> validation" where
  "validateDriverLicense now licenseNumber licenseExpiry =
    (let errors1 = (if blank licenseNumber
                    then [''Driver license number is required''] else []);
         errors2 = errors1 @
           (case licenseExpiry of
              None \<Rightarrow> [''Driver license expiry date is required'']
            | Some expiryDate \<Rightarrow>
                (if expiryDate \<le> now then [''Driver license has expired''] else []) @
                (let thirtyDaysFromNow = now + 30 * msPerDay
                 in if expiryDate \<le> thirtyDaysFromNow
                    then [''Driver license expires too soon for this booking''] else []))
     in \<lparr> isValid = (length errors2 = 0), errors = errors2 \<rparr>)"

record location =
  address :: "string option"
  city :: "string option"
  country :: "string option"

definition validateLocation :: "location \<Rightarrow> string \<Rightarrow> validation" where
  "validateLocation loc type =
    (let errors1 = (if blank (address loc)
                    then [type @ '' address is required''] else []);
         errors2 = errors1 @
                   (if blank (city loc)
                    then [type @ '' city is required''] else []);
         errors3 = errors2 @
                   (if blank (country loc)
                    then [type @ '' country is required''] else [])
     in \<lparr> isValid = (length errors3 = 0), errors = errors3 \<rparr>)"

section \<open>The documents: models/Car.js and models/Booking.js\<close>

type_synonym objectId = nat

datatype carStatus = CarActive | CarInactive | CarMaintenance | CarRented

fun carStatusName :: "carStatus \<Rightarrow> string" where
  "carStatusName CarActive = ''active''"
| "carStatusName CarInactive = ''inactive''"
| "carStatusName CarMaintenance = ''maintenance''"
| "carStatusName CarRented = ''rented''"

text \<open>An entry of \<open>availability.unavailableDates\<close> or \<open>availability.maintenanceSchedule\<close>.\<close>

record period =
  periodStart :: instant
  periodEnd :: instant

record car =
  carId :: objectId
  carPricing :: pricing
  availabilityIsAvailable :: bool
  unavailableDates :: "period list"
  maintenanceSchedule :: "period list"
  owner :: objectId
  carStatus :: carStatus
  ratingAverage :: rat
  ratingCount :: nat
  totalBookings :: nat

datatype bookingStatus = Pending | Confirmed | Active | Completed | Cancelled | NoShow

datatype paymentStatus = Unpaid | Paid | Refunded | PartiallyRefunded

text \<open>
  A booking document. Of the schema's fields the record keeps those the operations
  below read or write; the locations, the driver's details, mileage, fuel,
  inspection and notification sub-documents are left out. A number field holds a
  \<open>jsnum\<close>: the schema's cast refuses \<open>NaN\<close> (see \<open>bookingSchemaErrors\<close>), so a stored
  document holds none.
\<close>

record booking =
  bookingId :: objectId
  user :: objectId
  bookedCar :: objectId
  startDate :: instant
  endDate :: instant
  startTime :: clock
  endTime :: clock
  bBasePrice :: jsnum
  bTaxes :: jsnum
  bFees :: jsnum
  bTotalPrice :: jsnum
  bCurrency :: string
  bHours :: jsnum
  bDays :: jsnum
  status :: bookingStatus
  paymentStatus :: paymentStatus
  paymentMethod :: string
  specialRequests :: "string option"
  insuranceType :: string
  insuranceCostOf :: jsnum
  carRating :: "rat option"
  serviceRating :: "rat option"
  ratingComment :: "string option"
  ratedAt :: "instant option"
  cancelReason :: "string option"
  cancelledAt :: "instant option"
  cancelledBy :: "objectId option"
  refundAmount :: jsnum

text \<open>
  The record store: the two collections, in their natural order. \<open>findById\<close> gives
  the first document with the identifier. When \<open>storeFails\<close> is set every operation
  of the store throws (the connection is lost): this is what the \<open>catch\<close> blocks of
  the code see.
\<close>

record store =
  cars :: "car list"
  bookings :: "booking list"
  storeFails :: bool

definition Car_findById :: "store \<Rightarrow> objectId \<Rightarrow> car option" where
  "Car_findById st i = find (\<lambda>c. carId c = i) (cars st)"

definition Booking_findById :: "store \<Rightarrow> objectId \<Rightarrow> booking option" where
  "Booking_findById st i = find (\<lambda>b. bookingId b = i) (bookings st)"

section \<open>checkCarAvailability\<close>

text \<open>One entry of the \<open>conflictingBookings\<close> list of the answer.\<close>

record conflict =
  conflictId :: objectId
  conflictStartDate :: instant
  conflictEndDate :: instant
  conflictStartTime :: clock
  conflictEndTime :: clock

record availabilityCheck =
  isAvailable :: bool
  reason :: "string option"
  conflictingBookings :: "conflict list option"
  availableCar :: "car option"

text \<open>
  The query \<open>{car, status: {$in: [pending, confirmed, active]}, $or: [{startDate:
  {$lte: end}, endDate: {$gte: start}}], _id: {$ne: excludeBookingId}}\<close>, the last
  condition only when an identifier to exclude is given.
\<close>

definition conflictQuery :: "objectId \<Rightarrow> instant \<Rightarrow> instant \<Rightarrow> objectId option \<Rightarrow> booking \<Rightarrow> bool" where
  "conflictQuery cid start end excludeBookingId b =
     (bookedCar b = cid
      \<and> status b \<in> set [Pending, Confirmed, Active]
      \<and> (startDate b \<le> end \<and> endDate b \<ge> start)
      \<and> (case excludeBookingId of None \<Rightarrow> True | Some x \<Rightarrow> bookingId b \<noteq> x))"

definition toConflict :: "booking \<Rightarrow> conflict" where
  "toConflict b = \<lparr> conflictId = bookingId b, conflictStartDate = startDate b,
     conflictEndDate = endDate b, conflictStartTime = startTime b,
     conflictEndTime = endTime b \<rparr>"

definition unavailable :: "string \<Rightarrow> availabilityCheck" where
  "unavailable r = \<lparr> isAvailable = False, reason = Some r, conflictingBookings = None,
     availableCar = None \<rparr>"

definition checkCarAvailability ::
  "store \<Rightarrow> objectId \<Rightarrow> dateArg \<Rightarrow> dateArg \<Rightarrow> objectId option \<Rightarrow> availabilityCheck" where
  "checkCarAvailability st cid startDate' endDate' excludeBookingId =
    (if storeFails st then unavailable ''Error checking availability''
     else case Car_findById st cid of
       None \<Rightarrow> unavailable ''Car not found''
     | Some car \<Rightarrow>
        if carStatus car \<noteq> CarActive
        then unavailable (''Car is currently '' @ carStatusName (carStatus car))
        else if \<not> availabilityIsAvailable car
        then unavailable ''Car is not available for booking''
        else
          (let start = newDate startDate'; end = newDate endDate';
               hasUnavailableDatesConflict =
                 list_ex (\<lambda>period. start \<le> periodEnd period \<and> end \<ge> periodStart period)
                   (unavailableDates car)
           in if hasUnavailableDatesConflict
              then unavailable ''Car is not available for the selected dates''
              else
                (let hasMaintenanceConflict =
                       list_ex (\<lambda>maintenance. start \<le> periodEnd maintenance
                                  \<and> end \<ge> periodStart maintenance)
                         (maintenanceSchedule car)
                 in if hasMaintenanceConflict
                    then unavailable ''Car is scheduled for maintenance during the selected dates''
                    else
                      (let conflicting = filter (conflictQuery cid start end excludeBookingId)
                                           (bookings st)
                       in if length conflicting > 0
                          then \<lparr> isAvailable = False,
                                 reason = Some ''Car is already booked for the selected dates'',
                                 conflictingBookings = Some (map toConflict conflicting),
                                 availableCar = None \<rparr>
                          else \<lparr> isAvailable = True, reason = None,
                                 conflictingBookings = None, availableCar = Some car \<rparr>))))"

section \<open>The methods and hooks of the Booking and Car schemas\<close>

text \<open>
  The hours from \<open>now\<close> to the start instant of a booking, as \<open>canBeCancelled\<close> and
  \<open>calculateRefund\<close> compute them. Each of them reads the clock; within one request
  the readings are taken to be the same instant \<open>now\<close>.
\<close>

definition hoursUntilStart :: "instant \<Rightarrow> int \<Rightarrow> booking \<Rightarrow> rat" where
  "hoursUntilStart now tz b =
     (let startDateTime = dateAtTime tz (startDate b) (startTime b)
      in of_int (startDateTime - now) / of_int (1000 * 60 * 60))"

definition canBeCancelled :: "instant \<Rightarrow> int \<Rightarrow> booking \<Rightarrow> bool" where
  "canBeCancelled now tz b =
     (status b = Pending \<or> status b = Confirmed \<and> hoursUntilStart now tz b > 24)"

definition calculateRefund :: "instant \<Rightarrow> int \<Rightarrow> booking \<Rightarrow> jsnum" where
  "calculateRefund now tz b =
     (if \<not> canBeCancelled now tz b then Num 0
      else if hoursUntilStart now tz b \<ge> 48 then bTotalPrice b
      else if hoursUntilStart now tz b \<ge> 24 then num_mul (bTotalPrice b) (Num (5 / 10))
      else Num 0)"

text \<open>The \<open>pre('save')\<close> hook: \<open>None\<close> when it passes an error to \<open>next\<close>.\<close>

definition preSave :: "int \<Rightarrow> booking \<Rightarrow> booking option" where
  "preSave tz b =
     (let start = dateAtTime tz (startDate b) (startTime b);
          end = dateAtTime tz (endDate b) (endTime b)
      in if end \<le> start then None
         else
           (let durationMs = end - start
            in Some (b\<lparr> bHours := Num (of_int \<lceil>of_int durationMs / (of_int (1000 * 60 * 60) :: rat)\<rceil>),
                       bDays := Num (of_int \<lceil>of_int durationMs / (of_int (1000 * 60 * 60 * 24) :: rat)\<rceil>) \<rparr>)))"

text \<open>
  The validators the schema declares on the fields kept here, in the schema's
  order, each with its message. A \<open>NaN\<close> fails the cast to \<open>Number\<close> and an unknown
  enumeration value fails the \<open>enum\<close>; for these two the schema declares no message
  and the text here stands for the library's.
\<close>

definition numberErrors :: "string \<Rightarrow> rat \<Rightarrow> string \<Rightarrow> jsnum \<Rightarrow> string list" where
  "numberErrors path lo msg x =
     (case x of None \<Rightarrow> [''Cast to Number failed at path '' @ path]
      | Some v \<Rightarrow> if v < lo then [msg] else [])"

definition enumErrors :: "string \<Rightarrow> string list \<Rightarrow> string \<Rightarrow> string list" where
  "enumErrors path allowed v =
     (if v \<in> set allowed then [] else [v @ '' is not a valid enum value for path '' @ path])"

fun timeFormatErrors :: "clock \<Rightarrow> string list" where
  "timeFormatErrors (HM h m) =
     (if h \<le> 23 \<and> m \<le> 59 then [] else [''Please provide a valid time format (HH:MM)''])"
| "timeFormatErrors (H1M h m) =
     (if h \<le> 9 \<and> m \<le> 59 then [] else [''Please provide a valid time format (HH:MM)''])"

definition ratingErrors :: "rat option \<Rightarrow> string list" where
  "ratingErrors r =
     (case r of None \<Rightarrow> []
      | Some v \<Rightarrow> if v < 1 then [''Rating must be at least 1'']
                  else if v > 5 then [''Rating cannot be more than 5''] else [])"

definition maxlengthErrors :: "nat \<Rightarrow> string \<Rightarrow> string option \<Rightarrow> string list" where
  "maxlengthErrors n msg v =
     (case v of None \<Rightarrow> [] | Some t \<Rightarrow> if length t > n then [msg] else [])"

definition intervalErrors :: "booking \<Rightarrow> string list" where
  "intervalErrors b = timeFormatErrors (startTime b) @ timeFormatErrors (endTime b)"

definition pricingErrors :: "booking \<Rightarrow> string list" where
  "pricingErrors b =
     numberErrors ''pricing.basePrice'' 0 ''Base price cannot be negative'' (bBasePrice b) @
     numberErrors ''pricing.taxes'' 0 ''Taxes cannot be negative'' (bTaxes b) @
     numberErrors ''pricing.fees'' 0 ''Fees cannot be negative'' (bFees b) @
     numberErrors ''pricing.totalPrice'' 0 ''Total price cannot be negative'' (bTotalPrice b) @
     enumErrors ''pricing.currency'' [''USD'', ''EUR'', ''INR''] (bCurrency b)"

definition durationErrors :: "booking \<Rightarrow> string list" where
  "durationErrors b =
     numberErrors ''duration.hours'' 1 ''Booking must be at least 1 hour'' (bHours b) @
     numberErrors ''duration.days'' 0 ''Days cannot be negative'' (bDays b)"

definition paymentMethodErrors :: "booking \<Rightarrow> string list" where
  "paymentMethodErrors b =
     (if paymentMethod b = [] then [''Payment method is required'']
      else enumErrors ''paymentMethod''
             [''credit-card'', ''debit-card'', ''paypal'', ''cash'', ''bank-transfer'']
             (paymentMethod b))"

definition specialRequestsErrors :: "booking \<Rightarrow> string list" where
  "specialRequestsErrors b =
     maxlengthErrors 500 ''Special requests cannot exceed 500 characters'' (specialRequests b)"

definition insuranceErrors :: "booking \<Rightarrow> string list" where
  "insuranceErrors b =
     enumErrors ''insurance.type'' [''basic'', ''comprehensive'', ''premium''] (insuranceType b) @
     numberErrors ''insurance.cost'' 0 ''Insurance cost cannot be negative'' (insuranceCostOf b)"

definition bookingRatingErrors :: "booking \<Rightarrow> string list" where
  "bookingRatingErrors b =
     ratingErrors (carRating b) @
     ratingErrors (serviceRating b) @
     maxlengthErrors 1000 ''Comment cannot exceed 1000 characters'' (ratingComment b)"

definition cancellationErrors :: "booking \<Rightarrow> string list" where
  "cancellationErrors b =
     numberErrors ''cancellation.refundAmount'' 0 ''Refund amount cannot be negative''
       (refundAmount b)"

definition bookingSchemaErrors :: "booking \<Rightarrow> string list" where
  "bookingSchemaErrors b =
     intervalErrors b @ pricingErrors b @ durationErrors b @ paymentMethodErrors b @
     specialRequestsErrors b @ insuranceErrors b @ bookingRatingErrors b @
     cancellationErrors b"

text \<open>
  \<open>booking.save()\<close> of a loaded document: validation, then the \<open>pre('save')\<close> hook, then
  the write, which replaces the document of that identifier. \<open>None\<close> when the
  validation or the hook fails (\<open>save\<close> throws).
\<close>

definition replaceBooking :: "booking \<Rightarrow> store \<Rightarrow> store" where
  "replaceBooking b st =
     st\<lparr> bookings := map (\<lambda>x. if bookingId x = bookingId b then b else x) (bookings st) \<rparr>"

definition Booking_save :: "int \<Rightarrow> store \<Rightarrow> booking \<Rightarrow> (booking \<times> store) option" where
  "Booking_save tz st b =
     (if bookingSchemaErrors b \<noteq> [] then None
      else case preSave tz b of
             None \<Rightarrow> None
           | Some b' \<Rightarrow> Some (b', replaceBooking b' st))"

text \<open>\<open>carSchema.methods.updateRating\<close>, up to its \<open>save\<close>.\<close>

definition updateRating :: "car \<Rightarrow> rat \<Rightarrow> car" where
  "updateRating c newRating =
     (let currentTotal = ratingAverage c * of_nat (ratingCount c);
          count = ratingCount c + 1
      in c\<lparr> ratingCount := count,
            ratingAverage := (currentTotal + newRating) / of_nat count \<rparr>)"

text \<open>The validators of the car's \<open>rating\<close> sub-document, which \<open>save\<close> runs.\<close>

definition carRatingErrors :: "car \<Rightarrow> string list" where
  "carRatingErrors c =
     (if ratingAverage c < 0 then [''Rating cannot be less than 0'']
      else if ratingAverage c > 5 then [''Rating cannot be more than 5''] else [])"

definition replaceCar :: "car \<Rightarrow> store \<Rightarrow> store" where
  "replaceCar c st =
     st\<lparr> cars := map (\<lambda>x. if carId x = carId c then c else x) (cars st) \<rparr>"

definition Car_save :: "store \<Rightarrow> car \<Rightarrow> store option" where
  "Car_save st c = (if carRatingErrors c \<noteq> [] then None else Some (replaceCar c st))"

section \<open>controllers/bookingController.js\<close>

datatype role = RoleUser | RoleOwner | RoleAdmin

record reqUser =
  userId :: objectId
  userRole :: role

text \<open>The JSON body of a response, with its HTTP status; an absent key is \<open>None\<close>.\<close>

record response =
  httpStatus :: nat
  success :: bool
  message :: string
  respErrors :: "string list option"
  respConflictingBookings :: "conflict list option"
  respRefundAmount :: "jsnum option"
  respBooking :: "booking option"

definition respond :: "nat \<Rightarrow> bool \<Rightarrow> string \<Rightarrow> response" where
  "respond c ok msg = \<lparr> httpStatus = c, success = ok, message = msg, respErrors = None,
     respConflictingBookings = None, respRefundAmount = None, respBooking = None \<rparr>"

definition serverError :: response where
  "serverError = respond 500 False ''Server error''"

subsection \<open>createBooking\<close>

record driverDetails =
  licenseNumber :: "string option"
  licenseExpiry :: "instant option"

text \<open>
  The body of a create request. A date is the day of its \<open>YYYY-MM-DD\<close> string and a
  time the \<open>HH:MM\<close> it spells; an absent (or empty) field is \<open>None\<close>.
\<close>

record createBody =
  cCarId :: "objectId option"
  cStartDate :: "int option"
  cEndDate :: "int option"
  cStartTime :: "clock option"
  cEndTime :: "clock option"
  cPickupLocation :: "location option"
  cDropoffLocation :: "location option"
  cPaymentMethod :: "string option"
  cSpecialRequests :: "string option"
  cDriverDetails :: "driverDetails option"
  cInsuranceType :: "string option"

text \<open>An identifier no stored booking has.\<close>

definition freshBookingId :: "store \<Rightarrow> objectId" where
  "freshBookingId st = Suc (fold max (map bookingId (bookings st)) 0)"

text \<open>
  \<open>Booking.create\<close>: the document with the schema's defaults, validated, passed
  through the \<open>pre('save')\<close> hook and inserted. \<open>Inl\<close> is what it throws: the list of
  validation messages (a \<open>ValidationError\<close>), or \<open>None\<close> for the hook's plain \<open>Error\<close>.
\<close>

definition Booking_create :: "int \<Rightarrow> store \<Rightarrow> booking \<Rightarrow> string list option + booking \<times> store" where
  "Booking_create tz st doc =
     (if bookingSchemaErrors doc \<noteq> [] then Inl (Some (bookingSchemaErrors doc))
      else case preSave tz doc of
             None \<Rightarrow> Inl None
           | Some b \<Rightarrow> Inr (b, st\<lparr> bookings := bookings st @ [b] \<rparr>))"

definition createBooking ::
  "instant \<Rightarrow> int \<Rightarrow> store \<Rightarrow> reqUser \<Rightarrow> createBody \<Rightarrow> response \<times> store" where
  "createBooking now tz st u body =
    (let insuranceType' = (case cInsuranceType body of None \<Rightarrow> ''basic'' | Some t \<Rightarrow> t) in
     case (cCarId body, cStartDate body, cEndDate body, cStartTime body, cEndTime body,
           cPaymentMethod body) of
       (Some carId', Some startDate', Some endDate', Some startTime', Some endTime',
        Some paymentMethod') \<Rightarrow>
        if paymentMethod' = []
        then (respond 400 False ''Missing required fields'', st)
        else
         (let dateValidation = validateBookingDates now tz (DateString startDate')
                                 (DateString endDate') startTime' endTime'
          in if \<not> isValid dateValidation
             then ((respond 400 False ''Invalid booking dates'')
                     \<lparr> respErrors := Some (errors dateValidation) \<rparr>, st)
             else
              (let licenseValidation =
                     validateDriverLicense now
                       (case cDriverDetails body of None \<Rightarrow> None | Some dd \<Rightarrow> licenseNumber dd)
                       (case cDriverDetails body of None \<Rightarrow> None | Some dd \<Rightarrow> licenseExpiry dd)
               in if \<not> isValid licenseValidation
                  then ((respond 400 False ''Invalid driver license'')
                          \<lparr> respErrors := Some (errors licenseValidation) \<rparr>, st)
                  else
                   (case cPickupLocation body of
                      None \<Rightarrow> (serverError, st)
                    | Some pickup \<Rightarrow>
                       (let pickupValidation = validateLocation pickup ''Pickup''
                        in if \<not> isValid pickupValidation
                           then ((respond 400 False ''Invalid pickup location'')
                                   \<lparr> respErrors := Some (errors pickupValidation) \<rparr>, st)
                           else
                            (case cDropoffLocation body of
                               None \<Rightarrow> (serverError, st)
                             | Some dropoff \<Rightarrow>
                                (let dropoffValidation = validateLocation dropoff ''Dropoff''
                                 in if \<not> isValid dropoffValidation
                                    then ((respond 400 False ''Invalid dropoff location'')
                                            \<lparr> respErrors := Some (errors dropoffValidation) \<rparr>, st)
                                    else
                                     (let availability =
                                            checkCarAvailability st carId' (DateString startDate')
                                              (DateString endDate') None
                                      in if \<not> isAvailable availability
                                         then ((respond 400 False
                                                  (case reason availability of None \<Rightarrow> [] | Some r \<Rightarrow> r))
                                                 \<lparr> respConflictingBookings :=
                                                     conflictingBookings availability \<rparr>, st)
                                         else
                                          (case availableCar availability of
                                             None \<Rightarrow> (serverError, st)
                                           | Some car \<Rightarrow>
                                            (let price = calculateBookingPrice (carPricing car)
                                                           (duration dateValidation) insuranceType';
                                                 bookingData =
                                                   \<lparr> bookingId = freshBookingId st,
                                                     user = userId u,
                                                     bookedCar = carId',
                                                     startDate = newDate (DateString startDate'),
                                                     endDate = newDate (DateString endDate'),
                                                     startTime = startTime',
                                                     endTime = endTime',
                                                     bBasePrice = basePrice price,
                                                     bTaxes = taxes price,
                                                     bFees = fees price,
                                                     bTotalPrice = totalPrice price,
                                                     bCurrency = priceCurrency price,
                                                     bHours = hours (duration dateValidation),
                                                     bDays = days (duration dateValidation),
                                                     status = Pending,
                                                     paymentStatus = Unpaid,
                                                     paymentMethod = paymentMethod',
                                                     specialRequests = cSpecialRequests body,
                                                     insuranceType = insuranceType',
                                                     insuranceCostOf = insuranceCost price,
                                                     carRating = None,
                                                     serviceRating = None,
                                                     ratingComment = None,
                                                     ratedAt = None,
                                                     cancelReason = None,
                                                     cancelledAt = None,
                                                     cancelledBy = None,
                                                     refundAmount = Num 0 \<rparr>
                                             in case Booking_create tz st bookingData of
                                                  Inl (Some msgs) \<Rightarrow>
                                                    ((respond 400 False ''Validation error'')
                                                       \<lparr> respErrors := Some msgs \<rparr>, st)
                                                | Inl None \<Rightarrow> (serverError, st)
                                                | Inr (b, st') \<Rightarrow>
                                                    ((respond 201 True ''Booking created successfully'')
                                                       \<lparr> respBooking := Some b \<rparr>, st'))))))))))
     | _ \<Rightarrow> (respond 400 False ''Missing required fields'', st))"

subsection \<open>updateBooking\<close>

text \<open>
  The body of an update request, with five of its keys: the four fields of the
  interval, and the special requests for the fields that are written as they
  come. The code writes every key of the body; a body with other keys (the status,
  the price, the user) is not a value of this record.
\<close>

record updateBody =
  uStartDate :: "int option"
  uEndDate :: "int option"
  uStartTime :: "clock option"
  uEndTime :: "clock option"
  uSpecialRequests :: "string option"

text \<open>
  \<open>findByIdAndUpdate\<close> with \<open>runValidators\<close>: the fields of the body are written and the
  validators of the written paths run (\<open>errs\<close> below); \<open>None\<close> when it throws. The
  \<open>pre('save')\<close> hook does not run on this path.
\<close>

definition Booking_findByIdAndUpdate :: "store \<Rightarrow> string list \<Rightarrow> booking \<Rightarrow> (booking \<times> store) option" where
  "Booking_findByIdAndUpdate st errs b =
     (if errs \<noteq> [] then None else Some (b, replaceBooking b st))"

definition updateBooking ::
  "instant \<Rightarrow> int \<Rightarrow> store \<Rightarrow> reqUser \<Rightarrow> objectId \<Rightarrow> updateBody \<Rightarrow> response \<times> store" where
  "updateBooking now tz st u bid body =
    (if storeFails st then (serverError, st)
     else case Booking_findById st bid of
       None \<Rightarrow> (respond 404 False ''Booking not found'', st)
     | Some booking \<Rightarrow>
        if user booking \<noteq> userId u \<and> userRole u \<noteq> RoleAdmin
        then (respond 403 False ''Not authorized to update this booking'', st)
        else if status booking \<in> set [Active, Completed, Cancelled]
        then (respond 400 False ''Cannot update booking in current status'', st)
        else
         (let written = (case uSpecialRequests body of
                           None \<Rightarrow> booking
                         | Some t \<Rightarrow> booking\<lparr> specialRequests := Some t \<rparr>);
              finish = (\<lambda>errs doc. case Booking_findByIdAndUpdate st errs doc of
                                None \<Rightarrow> (serverError, st)
                              | Some (b, st') \<Rightarrow>
                                  ((respond 200 True ''Booking updated successfully'')
                                     \<lparr> respBooking := Some b \<rparr>, st'))
          in if uStartDate body \<noteq> None \<or> uEndDate body \<noteq> None
                \<or> uStartTime body \<noteq> None \<or> uEndTime body \<noteq> None
             then
              (let newStartDate = (case uStartDate body of
                                     Some d \<Rightarrow> DateString d
                                   | None \<Rightarrow> DateObject (startDate booking));
                   newEndDate = (case uEndDate body of
                                   Some d \<Rightarrow> DateString d
                                 | None \<Rightarrow> DateObject (endDate booking));
                   newStartTime = (case uStartTime body of
                                     Some t \<Rightarrow> t | None \<Rightarrow> startTime booking);
                   newEndTime = (case uEndTime body of
                                   Some t \<Rightarrow> t | None \<Rightarrow> endTime booking);
                   dateValidation = validateBookingDates now tz newStartDate newEndDate
                                      newStartTime newEndTime
               in if \<not> isValid dateValidation
                  then ((respond 400 False ''Invalid booking dates'')
                          \<lparr> respErrors := Some (errors dateValidation) \<rparr>, st)
                  else
                   (let availability = checkCarAvailability st (bookedCar booking)
                                         newStartDate newEndDate (Some (bookingId booking))
                    in if \<not> isAvailable availability
                       then (respond 400 False
                               (case reason availability of None \<Rightarrow> [] | Some r \<Rightarrow> r), st)
                       else
                        (case Car_findById st (bookedCar booking) of
                           None \<Rightarrow> (serverError, st)
                         | Some car \<Rightarrow>
                            (let price = calculateBookingPrice (carPricing car)
                                           (duration dateValidation) (insuranceType booking);
                                 doc = written
                                    \<lparr> startDate := (case uStartDate body of
                                                      Some d \<Rightarrow> newDate (DateString d)
                                                    | None \<Rightarrow> startDate booking),
                                      endDate := (case uEndDate body of
                                                    Some d \<Rightarrow> newDate (DateString d)
                                                  | None \<Rightarrow> endDate booking),
                                      startTime := newStartTime,
                                      endTime := newEndTime,
                                      bBasePrice := basePrice price,
                                      bTaxes := taxes price,
                                      bFees := fees price,
                                      bTotalPrice := totalPrice price,
                                      bCurrency := priceCurrency price,
                                      bHours := hours (duration dateValidation),
                                      bDays := days (duration dateValidation),
                                      insuranceCostOf := insuranceCost price \<rparr>
                             in finish
                                  ((if uStartTime body \<noteq> None
                                    then timeFormatErrors newStartTime else []) @
                                   (if uEndTime body \<noteq> None
                                    then timeFormatErrors newEndTime else []) @
                                   pricingErrors doc @ durationErrors doc @
                                   (if uSpecialRequests body \<noteq> None
                                    then specialRequestsErrors doc else []) @
                                   insuranceErrors doc)
                                  doc))))
             else finish (if uSpecialRequests body \<noteq> None
                          then specialRequestsErrors written else []) written))"

subsection \<open>cancelBooking\<close>

definition cancelBooking ::
  "instant \<Rightarrow> int \<Rightarrow> store \<Rightarrow> reqUser \<Rightarrow> objectId \<Rightarrow> string option \<Rightarrow> response \<times> store" where
  "cancelBooking now tz st u bid reason' =
    (if storeFails st then (serverError, st)
     else case Booking_findById st bid of
       None \<Rightarrow> (respond 404 False ''Booking not found'', st)
     | Some booking \<Rightarrow>
        if user booking \<noteq> userId u \<and> userRole u \<noteq> RoleAdmin
        then (respond 403 False ''Not authorized to cancel this booking'', st)
        else if \<not> canBeCancelled now tz booking
        then (respond 400 False ''Booking cannot be cancelled at this time'', st)
        else
         (let refundAmount' = calculateRefund now tz booking;
              cancelled = booking
                \<lparr> status := Cancelled,
                  cancelReason := Some (case reason' of
                                          None \<Rightarrow> ''Cancelled by user''
                                        | Some r \<Rightarrow> if r = [] then ''Cancelled by user'' else r),
                  cancelledAt := Some now,
                  cancelledBy := Some (userId u),
                  refundAmount := refundAmount' \<rparr>
          in case Booking_save tz st cancelled of
               None \<Rightarrow> (serverError, st)
             | Some (b, st') \<Rightarrow>
                 ((respond 200 True ''Booking cancelled successfully'')
                    \<lparr> respRefundAmount := Some refundAmount', respBooking := Some b \<rparr>, st')))"

subsection \<open>rateBooking\<close>

record rateBody =
  rCarRating :: "rat option"
  rServiceRating :: "rat option"
  rComment :: "string option"

definition rateBooking ::
  "instant \<Rightarrow> int \<Rightarrow> store \<Rightarrow> reqUser \<Rightarrow> objectId \<Rightarrow> rateBody \<Rightarrow> response \<times> store" where
  "rateBooking now tz st u bid body =
    (if \<not> truthy_num (rCarRating body) \<or> \<not> truthy_num (rServiceRating body)
     then (respond 400 False ''Car rating and service rating are required'', st)
     else if storeFails st then (serverError, st)
     else case Booking_findById st bid of
       None \<Rightarrow> (respond 404 False ''Booking not found'', st)
     | Some booking \<Rightarrow>
        if user booking \<noteq> userId u
        then (respond 403 False ''Not authorized to rate this booking'', st)
        else if status booking \<noteq> Completed
        then (respond 400 False ''Only completed bookings can be rated'', st)
        else if truthy_num (carRating booking)
        then (respond 400 False ''Booking has already been rated'', st)
        else
         (let rated = booking
                \<lparr> carRating := rCarRating body,
                  serviceRating := rServiceRating body,
                  ratingComment := rComment body,
                  ratedAt := Some now \<rparr>
          in case Booking_save tz st rated of
               None \<Rightarrow> (serverError, st)
             | Some (b, st') \<Rightarrow>
                 (case (Car_findById st (bookedCar booking), rCarRating body) of
                    (Some car, Some newRating) \<Rightarrow>
                      (case Car_save st' (updateRating car newRating) of
                         None \<Rightarrow> (serverError, st')
                       | Some st'' \<Rightarrow>
                           ((respond 200 True ''Booking rated successfully'')
                              \<lparr> respBooking := Some b \<rparr>, st''))
                  | _ \<Rightarrow> (serverError, st'))))"

section \<open>Example documents and requests\<close>

text \<open>
  A car with hourly rate 10, daily rate 100 and weekly rate 600, a blackout from
  day 10 to day 15 and a maintenance from day 22 to day 24; one pending booking of
  it from day 30 at 09:00 to day 32 at 10:00, at a total price of 256, made by
  user 5.
\<close>

definition rateCard10 :: pricing where
  "rateCard10 = \<lparr> hourly = 10, daily = 100, weekly = Some 600, monthly = None, currency = ''USD'' \<rparr>"

definition exampleCar :: car where
  "exampleCar = \<lparr> carId = 1, carPricing = rateCard10, availabilityIsAvailable = True,
     unavailableDates = [\<lparr> periodStart = 10 * msPerDay, periodEnd = 15 * msPerDay \<rparr>],
     maintenanceSchedule = [\<lparr> periodStart = 22 * msPerDay, periodEnd = 24 * msPerDay \<rparr>],
     owner = 7, carStatus = CarActive, ratingAverage = 0, ratingCount = 0, totalBookings = 0 \<rparr>"

definition exampleBooking :: booking where
  "exampleBooking = \<lparr> bookingId = 1, user = 5, bookedCar = 1,
     startDate = 30 * msPerDay, endDate = 32 * msPerDay,
     startTime = HM 9 0, endTime = HM 10 0,
     bBasePrice = Num 200, bTaxes = Num 21, bFees = Num 25, bTotalPrice = Num 256,
     bCurrency = ''USD'', bHours = Num 49, bDays = Num 3, status = Pending,
     paymentStatus = Unpaid, paymentMethod = ''cash'', specialRequests = None,
     insuranceType = ''basic'', insuranceCostOf = Num 10, carRating = None,
     serviceRating = None, ratingComment = None, ratedAt = None, cancelReason = None,
     cancelledAt = None, cancelledBy = None, refundAmount = Num 0 \<rparr>"

definition exampleStore :: store where
  "exampleStore = \<lparr> cars = [exampleCar], bookings = [exampleBooking], storeFails = False \<rparr>"

definition exampleUser :: reqUser where
  "exampleUser = \<lparr> userId = 5, userRole = RoleUser \<rparr>"

definition exampleLocation :: location where
  "exampleLocation = \<lparr> address = Some ''1 Main Street'', city = Some ''Pune'',
     country = Some ''India'' \<rparr>"

text \<open>A request for the example car from day 32 at 15:00 to day 33 at 15:00.\<close>

definition exampleBody :: createBody where
  "exampleBody = \<lparr> cCarId = Some 1, cStartDate = Some 32, cEndDate = Some 33,
     cStartTime = Some (HM 15 0), cEndTime = Some (HM 15 0),
     cPickupLocation = Some exampleLocation, cDropoffLocation = Some exampleLocation,
     cPaymentMethod = Some ''cash'', cSpecialRequests = None,
     cDriverDetails = Some \<lparr> licenseNumber = Some ''MH12'', licenseExpiry = Some (400 * msPerDay) \<rparr>,
     cInsuranceType = None \<rparr>"

text \<open>A request with an end before its start, no driver details and a pickup without city.\<close>

definition badBody :: createBody where
  "badBody = exampleBody \<lparr> cStartDate := Some 33, cEndDate := Some 32, cDriverDetails := None,
     cPickupLocation := Some (exampleLocation \<lparr> city := None \<rparr>) \<rparr>"

text \<open>The example booking once confirmed, and once marked as a no-show.\<close>

definition confirmedBooking :: booking where
  "confirmedBooking = exampleBooking \<lparr> status := Confirmed \<rparr>"

definition confirmedStore :: store where
  "confirmedStore = exampleStore \<lparr> bookings := [confirmedBooking] \<rparr>"

definition noShowBooking :: booking where
  "noShowBooking = exampleBooking \<lparr> status := NoShow \<rparr>"

definition noShowStore :: store where
  "noShowStore = exampleStore \<lparr> bookings := [noShowBooking] \<rparr>"

text \<open>Two completed bookings of the example car, which has no rating yet.\<close>

definition completedStore :: store where
  "completedStore = exampleStore
     \<lparr> bookings := [exampleBooking \<lparr> status := Completed \<rparr>,
                     exampleBooking \<lparr> bookingId := 2, status := Completed \<rparr>] \<rparr>"

text \<open>A rating request: the car rating \<open>r\<close>, with a service rating of 5.\<close>

definition exampleRating :: "rat \<Rightarrow> rateBody" where
  "exampleRating r = \<lparr> rCarRating = Some r, rServiceRating = Some 5, rComment = None \<rparr>"

text \<open>The example car with a booking inside its maintenance interval.\<close>

definition maintenanceBookedStore :: store where
  "maintenanceBookedStore = exampleStore
     \<lparr> bookings := [exampleBooking \<lparr> startDate := 23 * msPerDay, endDate := 25 * msPerDay \<rparr>] \<rparr>"

text \<open>A server five hours west of UTC.\<close>

definition west :: int where
  "west = - 5 * msPerHour"

text \<open>The request of \<open>exampleBody\<close> for the free days 40 to 41, and the store after it.\<close>

definition laterBody :: createBody where
  "laterBody = exampleBody \<lparr> cStartDate := Some 40, cEndDate := Some 41 \<rparr>"

definition storeAfterCreate :: "int \<Rightarrow> store" where
  "storeAfterCreate tz = snd (createBooking 0 tz exampleStore exampleUser laterBody)"

section \<open>Numbers, dates and the examples\<close>

lemma num_cmp_simps:
  "num_le (Some x) (Some y) = (x \<le> y)" "num_lt (Some x) (Some y) = (x < y)"
  "num_ge (Some x) (Some y) = (y \<le> x)" "num_gt (Some x) (Some y) = (y < x)"
  "num_le None b = False" "num_le a None = False" "num_lt None b = False" "num_lt a None = False"
  "num_ge None b = False" "num_ge a None = False" "num_gt None b = False" "num_gt a None = False"
  by (simp_all add: num_le_def num_lt_def num_ge_def num_gt_def split: option.splits)

lemma num_arith_simps:
  "num_add (Some x) (Some y) = Some (x + y)" "num_sub (Some x) (Some y) = Some (x - y)"
  "num_mul (Some x) (Some y) = Some (x * y)"
  "num_div (Some x) (Some y) = (if y = 0 then None else Some (x / y))"
  "Math_ceil (Some x) = Some (of_int \<lceil>x\<rceil>)" "Math_round (Some x) = Some (of_int \<lfloor>x + 1 / 2\<rfloor>)"
  "num_add None b = None" "num_add a None = None" "num_sub None b = None" "num_sub a None = None"
  "num_mul None b = None" "num_mul a None = None" "num_div None b = None" "num_div a None = None"
  "Math_ceil None = None" "Math_round None = None"
  by (simp_all add: num_add_def num_sub_def num_mul_def num_div_def Math_ceil_def Math_round_def
      split: option.splits)

lemma truthy_num_simps:
  "truthy_num (Some x) = (x \<noteq> 0)" "truthy_num None = False"
  by (simp_all add: truthy_num_def)

lemmas example_defs = exampleCar_def exampleBooking_def exampleStore_def exampleUser_def
  exampleLocation_def exampleBody_def badBody_def rateCard10_def confirmedBooking_def
  confirmedStore_def noShowBooking_def noShowStore_def completedStore_def exampleRating_def
  maintenanceBookedStore_def

lemmas time_defs = msPerDay_def msPerHour_def msPerMinute_def

text \<open>
  The day of a stored date. A request's date is stored as UTC midnight of its day.
  On a server at or east of UTC (by less than a day) the methods of the booking
  find the same day again, and their start instant is the one the validator
  computed from the request; west of UTC they find the day before, and their start
  instant is a day earlier than the validator's.
\<close>

lemma dateAtTime_request:
  assumes "0 \<le> tz" and "tz < msPerDay" and "validClock t"
  shows "newDateT tz (DateString d) t = Num (of_int (dateAtTime tz (newDate (DateString d)) t))"
proof -
  have "(d * msPerDay + tz) div msPerDay = d"
    using assms(1,2) by (simp add: msPerDay_def)
  then show ?thesis
    using assms(3) by (simp add: dateAtTime_def localDay_def)
qed

lemma dateAtTime_west_of_UTC:
  "dateAtTime (- 5 * msPerHour) (newDate (DateString 10)) (HM 9 0)
     = 9 * msPerDay + 9 * msPerHour + 5 * msPerHour
   \<and> newDateT (- 5 * msPerHour) (DateString 10) (HM 9 0)
     = Num (of_int (10 * msPerDay + 9 * msPerHour + 5 * msPerHour))"
  by (simp add: dateAtTime_def localDay_def time_defs)

lemma dateAtTime_request_west:
  assumes "- msPerDay \<le> tz" and "tz < 0" and "validClock t"
  shows "newDateT tz (DateString d) t
           = Num (of_int (dateAtTime tz (newDate (DateString d)) t + msPerDay))"
proof -
  have "0 \<le> tz + 86400000" and "tz + 86400000 < 86400000"
    using assms(1,2) by (simp_all add: msPerDay_def)
  then have "((d - 1) * 86400000 + (tz + 86400000)) div 86400000 = d - 1"
    by simp
  moreover have "(d - 1) * 86400000 + (tz + 86400000) = d * 86400000 + tz"
    by (simp add: algebra_simps)
  ultimately have "localDay tz (d * msPerDay) = d - 1"
    by (simp add: localDay_def msPerDay_def)
  then have "dateAtTime tz (newDate (DateString d)) t + msPerDay
               = d * msPerDay + clockMs t - tz"
    by (simp add: dateAtTime_def left_diff_distrib)
  then show ?thesis
    using assms(3) by simp
qed

section \<open>The Date/Time validator\<close>

lemma validateBookingDates_errors:
  assumes "newDateT tz sd st = Num (of_int s)" and "newDateT tz ed et = Num (of_int e)"
  shows "errors (validateBookingDates now tz sd ed st et) =
      (if s \<le> now then [''Start date and time must be in the future''] else []) @
      (if e \<le> s then [''End date and time must be after start date and time''] else []) @
      (if e - s < msPerHour then [''Booking must be at least 1 hour long''] else []) @
      (if e - s > 30 * 24 * msPerHour then [''Booking cannot be more than 30 days long''] else [])"
  using assms
  by (simp add: validateBookingDates_def Let_def num_cmp_simps num_arith_simps msPerHour_def)

lemma validateBookingDates_isValid:
  "isValid (validateBookingDates now tz sd ed st et)
     = (errors (validateBookingDates now tz sd ed st et) = [])"
  by (simp add: validateBookingDates_def Let_def)

lemma validateBookingDates_duration:
  assumes "newDateT tz sd st = Num (of_int s)" and "newDateT tz ed et = Num (of_int e)"
  shows "duration (validateBookingDates now tz sd ed st et) =
      \<lparr> hours = Num (of_int \<lceil>of_int (e - s) / (3600000 :: rat)\<rceil>),
        days = Num (of_int \<lceil>of_int (e - s) / (3600000 :: rat) / 24\<rceil>) \<rparr>"
  using assms
  by (simp add: validateBookingDates_def Let_def num_cmp_simps num_arith_simps)

text \<open>
  A start that is an Invalid Date fails none of the four comparisons: the validator
  accepts it, with a duration of \<open>NaN\<close>.
\<close>

lemma validateBookingDates_invalid_date:
  assumes "newDateT tz sd st = None"
  shows "validateBookingDates now tz sd ed st et
           = \<lparr> isValid = True, errors = [], duration = \<lparr> hours = None, days = None \<rparr> \<rparr>"
  using assms
  by (auto simp add: validateBookingDates_def Let_def num_cmp_simps num_arith_simps)



section \<open>The pricing calculator\<close>

text \<open>
  C1. A booking from 10:00 to 13:00 of one day, on a car with hourly rate 10 and
  daily rate 100, basic insurance. The validator gives it 3 hours and 1 day, and the
  calculator bills one day and three hours for it: base 130, insurance 6.50, taxes
  13.65, fee 25, total 175.15. Given 3 hours and 0 days the calculator bills by the
  hour: base 30, insurance 1.50, taxes 3.15, fee 10, total 44.65.
\<close>

theorem C1_three_hours_billed_as_a_day:
  "duration (validateBookingDates 0 0 (DateString 10) (DateString 10) (HM 10 0) (HM 13 0))
     = \<lparr> hours = Num 3, days = Num 1 \<rparr>
   \<and> calculateBookingPrice rateCard10
        (duration (validateBookingDates 0 0 (DateString 10) (DateString 10) (HM 10 0) (HM 13 0)))
        ''basic''
     = \<lparr> basePrice = Num 130, insuranceCost = Num (65 / 10), taxes = Num (1365 / 100),
         fees = Num 25, totalPrice = Num (17515 / 100), priceCurrency = ''USD'' \<rparr>
   \<and> calculateBookingPrice rateCard10 \<lparr> hours = Num 3, days = Num 0 \<rparr> ''basic''
     = \<lparr> basePrice = Num 30, insuranceCost = Num (15 / 10), taxes = Num (315 / 100),
         fees = Num 10, totalPrice = Num (4465 / 100), priceCurrency = ''USD'' \<rparr>"
  by code_simp

text \<open>The two fees of the two computations above.\<close>

theorem C1_three_hours_billed_as_a_day_witness:
  "fees (calculateBookingPrice rateCard10
           (duration (validateBookingDates 0 0 (DateString 10) (DateString 10) (HM 10 0) (HM 13 0)))
           ''basic'') = Num 25
   \<and> fees (calculateBookingPrice rateCard10 \<lparr> hours = Num 3, days = Num 0 \<rparr> ''basic'') = Num 10"
  using C1_three_hours_billed_as_a_day [THEN conjunct2, THEN conjunct1]
        C1_three_hours_billed_as_a_day [THEN conjunct2, THEN conjunct2]
  by simp

text \<open>
  The validator rounds the days up, so it gives at least one day to every interval
  it accepts, and the calculator's branch for zero days is not reached from it: a
  validated booking always pays the fee of 25.
\<close>

lemma validated_days_ge_1:
  assumes "isValid (validateBookingDates now tz (DateString sd) (DateString ed) st et)"
      and "validClock st" and "validClock et"
  shows "\<exists>d. days (duration (validateBookingDates now tz (DateString sd) (DateString ed) st et)) = Num d
             \<and> 1 \<le> d"
proof -
  let ?s = "sd * msPerDay + clockMs st - tz" and ?e = "ed * msPerDay + clockMs et - tz"
  have s: "newDateT tz (DateString sd) st = Num (of_int ?s)"
   and e: "newDateT tz (DateString ed) et = Num (of_int ?e)"
    using assms(2,3) by simp_all
  from assms(1) have "\<not> ?e - ?s < msPerHour"
    unfolding validateBookingDates_isValid validateBookingDates_errors [OF s e]
    by (simp split: if_splits)
  then have "0 < ?e - ?s"
    by (simp add: msPerHour_def)
  then have "0 < (of_int (?e - ?s) :: rat)"
    by (simp only: of_int_0_less_iff)
  then have pos: "0 < (of_int (?e - ?s) :: rat) / 3600000 / 24"
    by simp
  then have "0 < \<lceil>(of_int (?e - ?s) :: rat) / 3600000 / 24\<rceil>"
    by (simp only: zero_less_ceiling)
  then have "1 \<le> \<lceil>(of_int (?e - ?s) :: rat) / 3600000 / 24\<rceil>"
    by linarith
  then show ?thesis
    unfolding validateBookingDates_duration [OF s e] by simp
qed

lemma validated_fee_is_25:
  assumes "isValid (validateBookingDates now tz (DateString sd) (DateString ed) st et)"
      and "validClock st" and "validClock et"
  shows "fees (calculateBookingPrice p
           (duration (validateBookingDates now tz (DateString sd) (DateString ed) st et)) ins)
         = Num 25"
proof -
  from validated_days_ge_1 [OF assms] obtain d where
    "days (duration (validateBookingDates now tz (DateString sd) (DateString ed) st et)) = Num d"
    "1 \<le> d" by blast
  then show ?thesis
    by (simp add: calculateBookingPrice_def Let_def num_cmp_simps)
qed

section \<open>The availability checker\<close>

lemma checkCarAvailability_isAvailable:
  "isAvailable (checkCarAvailability st cid sd ed x) \<longleftrightarrow>
     \<not> storeFails st \<and>
     (\<exists>c. Car_findById st cid = Some c \<and> carStatus c = CarActive \<and> availabilityIsAvailable c
        \<and> \<not> list_ex (\<lambda>p. newDate sd \<le> periodEnd p \<and> newDate ed \<ge> periodStart p) (unavailableDates c)
        \<and> \<not> list_ex (\<lambda>p. newDate sd \<le> periodEnd p \<and> newDate ed \<ge> periodStart p) (maintenanceSchedule c)
        \<and> filter (conflictQuery cid (newDate sd) (newDate ed) x) (bookings st) = [])"
  by (simp add: checkCarAvailability_def unavailable_def Let_def split: option.splits)

lemma conflictQuery_iff:
  "conflictQuery cid s e x b \<longleftrightarrow>
     bookedCar b = cid \<and> (status b = Pending \<or> status b = Confirmed \<or> status b = Active)
     \<and> startDate b \<le> e \<and> s \<le> endDate b \<and> x \<noteq> Some (bookingId b)"
  by (auto simp add: conflictQuery_def split: option.splits)

lemma example_store_facts:
  "\<not> storeFails exampleStore" "Car_findById exampleStore 1 = Some exampleCar"
  "carStatus exampleCar = CarActive" "availabilityIsAvailable exampleCar"
  by (simp_all add: example_defs Car_findById_def)

text \<open>
  C5. For a car that is found, active and flagged available, the request is
  available exactly when no blackout interval, no maintenance interval and no
  pending, confirmed or active booking of the car (other than the excluded one)
  satisfies requestStart \<le> otherEnd and requestEnd \<ge> otherStart; so a request that
  only touches an endpoint of one of them is a conflict.
\<close>

theorem C5_overlap_is_inclusive:
  assumes "\<not> storeFails st" and "Car_findById st cid = Some c"
      and "carStatus c = CarActive" and "availabilityIsAvailable c"
  shows "(isAvailable (checkCarAvailability st cid sd ed x) \<longleftrightarrow>
            \<not> (\<exists>p \<in> set (unavailableDates c).
                  newDate sd \<le> periodEnd p \<and> newDate ed \<ge> periodStart p)
          \<and> \<not> (\<exists>m \<in> set (maintenanceSchedule c).
                  newDate sd \<le> periodEnd m \<and> newDate ed \<ge> periodStart m)
          \<and> \<not> (\<exists>b \<in> set (bookings st).
                  bookedCar b = cid
                  \<and> (status b = Pending \<or> status b = Confirmed \<or> status b = Active)
                  \<and> x \<noteq> Some (bookingId b)
                  \<and> newDate sd \<le> endDate b \<and> newDate ed \<ge> startDate b))
       \<and> (newDate sd \<le> newDate ed
            \<and> (\<exists>p \<in> set (unavailableDates c) \<union> set (maintenanceSchedule c).
                  periodStart p \<le> periodEnd p
                  \<and> (periodEnd p = newDate sd \<or> periodStart p = newDate ed))
          \<longrightarrow> \<not> isAvailable (checkCarAvailability st cid sd ed x))
       \<and> (newDate sd \<le> newDate ed
            \<and> (\<exists>b \<in> set (bookings st).
                  bookedCar b = cid
                  \<and> (status b = Pending \<or> status b = Confirmed \<or> status b = Active)
                  \<and> x \<noteq> Some (bookingId b)
                  \<and> startDate b \<le> endDate b
                  \<and> (endDate b = newDate sd \<or> startDate b = newDate ed))
          \<longrightarrow> \<not> isAvailable (checkCarAvailability st cid sd ed x))"
proof -
  have iff: "isAvailable (checkCarAvailability st cid sd ed x) \<longleftrightarrow>
            \<not> (\<exists>p \<in> set (unavailableDates c).
                  newDate sd \<le> periodEnd p \<and> newDate ed \<ge> periodStart p)
          \<and> \<not> (\<exists>m \<in> set (maintenanceSchedule c).
                  newDate sd \<le> periodEnd m \<and> newDate ed \<ge> periodStart m)
          \<and> \<not> (\<exists>b \<in> set (bookings st).
                  bookedCar b = cid
                  \<and> (status b = Pending \<or> status b = Confirmed \<or> status b = Active)
                  \<and> x \<noteq> Some (bookingId b)
                  \<and> newDate sd \<le> endDate b \<and> newDate ed \<ge> startDate b)"
    unfolding checkCarAvailability_isAvailable
    using assms by (auto simp add: list_ex_iff filter_empty_conv conflictQuery_iff)
  show ?thesis
    unfolding iff by (intro conjI impI; (simp; fail | fastforce))
qed

text \<open>
  The blackout from day 10 to day 15 rejects days 14 to 16 and 15 to 16 and leaves
  days 16 to 20 free; days 20 to 22 touch the maintenance, days 32 to 33 and 29 to
  30 touch the booking.
\<close>

theorem C5_overlap_is_inclusive_witness:
  "\<not> isAvailable (checkCarAvailability exampleStore 1 (DateString 14) (DateString 16) None)
   \<and> isAvailable (checkCarAvailability exampleStore 1 (DateString 16) (DateString 20) None)
   \<and> \<not> isAvailable (checkCarAvailability exampleStore 1 (DateString 15) (DateString 16) None)
   \<and> \<not> isAvailable (checkCarAvailability exampleStore 1 (DateString 20) (DateString 22) None)
   \<and> \<not> isAvailable (checkCarAvailability exampleStore 1 (DateString 32) (DateString 33) None)
   \<and> \<not> isAvailable (checkCarAvailability exampleStore 1 (DateString 29) (DateString 30) None)"
  using C5_overlap_is_inclusive [OF example_store_facts, of "DateString 14" "DateString 16" None]
        C5_overlap_is_inclusive [OF example_store_facts, of "DateString 16" "DateString 20" None]
        C5_overlap_is_inclusive [OF example_store_facts, of "DateString 15" "DateString 16" None]
        C5_overlap_is_inclusive [OF example_store_facts, of "DateString 20" "DateString 22" None]
        C5_overlap_is_inclusive [OF example_store_facts, of "DateString 32" "DateString 33" None]
        C5_overlap_is_inclusive [OF example_store_facts, of "DateString 29" "DateString 30" None]
  by (simp add: example_defs time_defs)

lemma checkCarAvailability_no_car:
  "\<not> storeFails st \<Longrightarrow> Car_findById st cid = None \<Longrightarrow>
     checkCarAvailability st cid sd ed x = unavailable ''Car not found''"
  by (simp add: checkCarAvailability_def)

lemma checkCarAvailability_car:
  "\<not> storeFails st \<Longrightarrow> Car_findById st cid = Some c \<Longrightarrow>
     checkCarAvailability st cid sd ed x =
       (if carStatus c \<noteq> CarActive
        then unavailable (''Car is currently '' @ carStatusName (carStatus c))
        else if \<not> availabilityIsAvailable c
        then unavailable ''Car is not available for booking''
        else if list_ex (\<lambda>p. newDate sd \<le> periodEnd p \<and> newDate ed \<ge> periodStart p)
                  (unavailableDates c)
        then unavailable ''Car is not available for the selected dates''
        else if list_ex (\<lambda>m. newDate sd \<le> periodEnd m \<and> newDate ed \<ge> periodStart m)
                  (maintenanceSchedule c)
        then unavailable ''Car is scheduled for maintenance during the selected dates''
        else if filter (conflictQuery cid (newDate sd) (newDate ed) x) (bookings st) \<noteq> []
        then \<lparr> isAvailable = False,
               reason = Some ''Car is already booked for the selected dates'',
               conflictingBookings =
                 Some (map toConflict
                        (filter (conflictQuery cid (newDate sd) (newDate ed) x) (bookings st))),
               availableCar = None \<rparr>
        else \<lparr> isAvailable = True, reason = None, conflictingBookings = None,
               availableCar = Some c \<rparr>)"
  by (simp add: checkCarAvailability_def Let_def)

lemma Bex_set_list_ex: "(\<exists>p \<in> set xs. P p) = list_ex P xs"
  by (simp add: list_ex_iff)

lemma checkCarAvailability_conflicts_reason:
  assumes "conflictingBookings (checkCarAvailability st cid sd ed x) \<noteq> None"
  shows "reason (checkCarAvailability st cid sd ed x)
           = Some ''Car is already booked for the selected dates''"
proof (cases "storeFails st")
  case True
  with assms show ?thesis by (simp add: checkCarAvailability_def unavailable_def)
next
  case False
  show ?thesis
  proof (cases "Car_findById st cid")
    case None
    with False assms show ?thesis
      by (simp add: checkCarAvailability_no_car unavailable_def)
  next
    case (Some c)
    with False assms show ?thesis
      by (simp add: checkCarAvailability_car unavailable_def split: if_splits)
  qed
qed

text \<open>
  C6. The answer of the availability check is decided by the first failing check,
  in the order: car exists, car status is active, availability flag, blackout
  intervals, maintenance intervals, conflicting bookings. Only the last carries the
  list of conflicting bookings; a car with an overlapping maintenance interval is
  reported as in maintenance whatever its bookings are.
\<close>

theorem C6_first_failing_check:
  assumes "\<not> storeFails st"
  shows "(Car_findById st cid = None \<longrightarrow>
            checkCarAvailability st cid sd ed x = unavailable ''Car not found'')
       \<and> (\<forall>c. Car_findById st cid = Some c \<longrightarrow>
            (carStatus c \<noteq> CarActive \<longrightarrow>
               checkCarAvailability st cid sd ed x
                 = unavailable (''Car is currently '' @ carStatusName (carStatus c)))
          \<and> (carStatus c = CarActive \<and> \<not> availabilityIsAvailable c \<longrightarrow>
               checkCarAvailability st cid sd ed x
                 = unavailable ''Car is not available for booking'')
          \<and> (carStatus c = CarActive \<and> availabilityIsAvailable c
              \<and> (\<exists>p \<in> set (unavailableDates c).
                    newDate sd \<le> periodEnd p \<and> newDate ed \<ge> periodStart p) \<longrightarrow>
               checkCarAvailability st cid sd ed x
                 = unavailable ''Car is not available for the selected dates'')
          \<and> (carStatus c = CarActive \<and> availabilityIsAvailable c
              \<and> \<not> (\<exists>p \<in> set (unavailableDates c).
                    newDate sd \<le> periodEnd p \<and> newDate ed \<ge> periodStart p)
              \<and> (\<exists>m \<in> set (maintenanceSchedule c).
                    newDate sd \<le> periodEnd m \<and> newDate ed \<ge> periodStart m) \<longrightarrow>
               checkCarAvailability st cid sd ed x
                 = unavailable ''Car is scheduled for maintenance during the selected dates'')
          \<and> (carStatus c = CarActive \<and> availabilityIsAvailable c
              \<and> \<not> (\<exists>p \<in> set (unavailableDates c).
                    newDate sd \<le> periodEnd p \<and> newDate ed \<ge> periodStart p)
              \<and> \<not> (\<exists>m \<in> set (maintenanceSchedule c).
                    newDate sd \<le> periodEnd m \<and> newDate ed \<ge> periodStart m)
              \<and> filter (conflictQuery cid (newDate sd) (newDate ed) x) (bookings st) \<noteq> [] \<longrightarrow>
               checkCarAvailability st cid sd ed x
                 = \<lparr> isAvailable = False,
                     reason = Some ''Car is already booked for the selected dates'',
                     conflictingBookings =
                       Some (map toConflict
                              (filter (conflictQuery cid (newDate sd) (newDate ed) x) (bookings st))),
                     availableCar = None \<rparr>))
       \<and> (conflictingBookings (checkCarAvailability st cid sd ed x) \<noteq> None \<longrightarrow>
            reason (checkCarAvailability st cid sd ed x)
              = Some ''Car is already booked for the selected dates'')"
  unfolding Bex_set_list_ex
proof (intro conjI allI impI)
  show "checkCarAvailability st cid sd ed x = unavailable ''Car not found''"
    if "Car_findById st cid = None"
    using assms that by (rule checkCarAvailability_no_car)
next
  show "reason (checkCarAvailability st cid sd ed x)
          = Some ''Car is already booked for the selected dates''"
    if "conflictingBookings (checkCarAvailability st cid sd ed x) \<noteq> None"
    using that by (rule checkCarAvailability_conflicts_reason)
qed (simp_all add: checkCarAvailability_car [OF assms])

text \<open>
  A car that is not in the store; a car with a booking inside its maintenance
  interval, asked for days within both and for days that meet the booking alone.
\<close>

theorem C6_first_failing_check_witness:
  "checkCarAvailability exampleStore 2 (DateString 23) (DateString 24) None
     = unavailable ''Car not found''
   \<and> checkCarAvailability maintenanceBookedStore 1 (DateString 23) (DateString 24) None
     = unavailable ''Car is scheduled for maintenance during the selected dates''
   \<and> checkCarAvailability maintenanceBookedStore 1 (DateString 25) (DateString 26) None
     = \<lparr> isAvailable = False,
         reason = Some ''Car is already booked for the selected dates'',
         conflictingBookings =
           Some [\<lparr> conflictId = 1, conflictStartDate = 23 * msPerDay,
                   conflictEndDate = 25 * msPerDay, conflictStartTime = HM 9 0,
                   conflictEndTime = HM 10 0 \<rparr>],
         availableCar = None \<rparr>"
proof -
  have s: "\<not> storeFails exampleStore" "\<not> storeFails maintenanceBookedStore"
    by (simp_all add: example_defs)
  have c: "Car_findById exampleStore 2 = None"
      "Car_findById maintenanceBookedStore 1 = Some exampleCar"
    by (simp_all add: example_defs Car_findById_def)
  have m: "carStatus exampleCar = CarActive \<and> availabilityIsAvailable exampleCar
      \<and> \<not> (\<exists>p \<in> set (unavailableDates exampleCar).
             newDate (DateString 23) \<le> periodEnd p \<and> newDate (DateString 24) \<ge> periodStart p)
      \<and> (\<exists>m \<in> set (maintenanceSchedule exampleCar).
             newDate (DateString 23) \<le> periodEnd m \<and> newDate (DateString 24) \<ge> periodStart m)"
    by (simp add: example_defs time_defs)
  have f: "filter (conflictQuery 1 (newDate (DateString 25)) (newDate (DateString 26)) None)
             (bookings maintenanceBookedStore)
           = [exampleBooking \<lparr> startDate := 23 * msPerDay, endDate := 25 * msPerDay \<rparr>]"
    by (simp add: example_defs conflictQuery_def time_defs)
  have k: "carStatus exampleCar = CarActive \<and> availabilityIsAvailable exampleCar
      \<and> \<not> (\<exists>p \<in> set (unavailableDates exampleCar).
             newDate (DateString 25) \<le> periodEnd p \<and> newDate (DateString 26) \<ge> periodStart p)
      \<and> \<not> (\<exists>m \<in> set (maintenanceSchedule exampleCar).
             newDate (DateString 25) \<le> periodEnd m \<and> newDate (DateString 26) \<ge> periodStart m)
      \<and> filter (conflictQuery 1 (newDate (DateString 25)) (newDate (DateString 26)) None)
             (bookings maintenanceBookedStore) \<noteq> []"
    unfolding f by (simp add: example_defs time_defs)
  have 1: "checkCarAvailability exampleStore 2 (DateString 23) (DateString 24) None
     = unavailable ''Car not found''"
    using C6_first_failing_check [OF s(1), of 2 "DateString 23" "DateString 24" None] c(1)
    by blast
  have 2: "checkCarAvailability maintenanceBookedStore 1 (DateString 23) (DateString 24) None
     = unavailable ''Car is scheduled for maintenance during the selected dates''"
    using C6_first_failing_check [OF s(2), of 1 "DateString 23" "DateString 24" None] c(2) m
    by blast
  have 3: "checkCarAvailability maintenanceBookedStore 1 (DateString 25) (DateString 26) None
     = \<lparr> isAvailable = False,
         reason = Some ''Car is already booked for the selected dates'',
         conflictingBookings =
           Some (map toConflict
                  (filter (conflictQuery 1 (newDate (DateString 25)) (newDate (DateString 26)) None)
                     (bookings maintenanceBookedStore))),
         availableCar = None \<rparr>"
    using C6_first_failing_check [OF s(2), of 1 "DateString 25" "DateString 26" None] c(2) k
    by blast
  show ?thesis
    unfolding 1 2 3 f by (simp add: toConflict_def example_defs)
qed

lemma checkCarAvailability_times_irrelevant:
  "isAvailable (checkCarAvailability
      (st\<lparr> bookings := map (\<lambda>y. y\<lparr> startTime := f y, endTime := g y \<rparr>) (bookings st) \<rparr>)
      cid sd ed x)
   = isAvailable (checkCarAvailability st cid sd ed x)"
proof -
  have q: "conflictQuery cid s e x (y\<lparr> startTime := t1, endTime := t2 \<rparr>)
             = conflictQuery cid s e x y" for s e y t1 t2
    by (simp add: conflictQuery_iff)
  have "filter (conflictQuery cid s e x) (map (\<lambda>y. y\<lparr> startTime := f y, endTime := g y \<rparr>) bs)
          = map (\<lambda>y. y\<lparr> startTime := f y, endTime := g y \<rparr>) (filter (conflictQuery cid s e x) bs)"
    for s e bs
    by (simp add: filter_map o_def q)
  then show ?thesis
    by (simp add: checkCarAvailability_isAvailable Car_findById_def)
qed

lemma conflictQuery_times:
  "conflictQuery cid s e x (y\<lparr> startTime := t1, endTime := t2 \<rparr>) = conflictQuery cid s e x y"
  by (simp add: conflictQuery_iff)

lemma conflictQuery_filter_times:
  "filter (conflictQuery cid s e x) (map (\<lambda>y. y\<lparr> startTime := f y, endTime := g y \<rparr>) bs)
     = map (\<lambda>y. y\<lparr> startTime := f y, endTime := g y \<rparr>) (filter (conflictQuery cid s e x) bs)"
  by (simp add: filter_map o_def conflictQuery_times)

text \<open>
  C10. The availability check is given the two dates only, and compares them with
  the stored start and end dates of the bookings. For a car that passes the checks
  before the bookings, a pending, confirmed or active booking of the car whose range
  of dates meets the requested range is reported as a conflict: the answer is that
  the car is already booked, and its list holds the booking. The times of day of the
  stored bookings have no part in it: with any other times the same bookings are
  reported.
\<close>

theorem C10_date_granularity:
  assumes "\<not> storeFails st" and "Car_findById st cid = Some c"
      and "carStatus c = CarActive" and "availabilityIsAvailable c"
      and "\<not> (\<exists>p \<in> set (unavailableDates c).
                newDate sd \<le> periodEnd p \<and> newDate ed \<ge> periodStart p)"
      and "\<not> (\<exists>m \<in> set (maintenanceSchedule c).
                newDate sd \<le> periodEnd m \<and> newDate ed \<ge> periodStart m)"
      and "b \<in> set (bookings st)" and "bookedCar b = cid"
      and "status b = Pending \<or> status b = Confirmed \<or> status b = Active"
      and "x \<noteq> Some (bookingId b)"
      and "startDate b \<le> newDate ed" and "newDate sd \<le> endDate b"
  shows "checkCarAvailability st cid sd ed x
           = \<lparr> isAvailable = False,
               reason = Some ''Car is already booked for the selected dates'',
               conflictingBookings =
                 Some (map toConflict
                        (filter (conflictQuery cid (newDate sd) (newDate ed) x) (bookings st))),
               availableCar = None \<rparr>
       \<and> b \<in> set (filter (conflictQuery cid (newDate sd) (newDate ed) x) (bookings st))
       \<and> (\<forall>f g. checkCarAvailability
                   (st\<lparr> bookings := map (\<lambda>y. y\<lparr> startTime := f y, endTime := g y \<rparr>)
                                          (bookings st) \<rparr>) cid sd ed x
                 = \<lparr> isAvailable = False,
                     reason = Some ''Car is already booked for the selected dates'',
                     conflictingBookings =
                       Some (map toConflict
                              (map (\<lambda>y. y\<lparr> startTime := f y, endTime := g y \<rparr>)
                                 (filter (conflictQuery cid (newDate sd) (newDate ed) x)
                                    (bookings st)))),
                     availableCar = None \<rparr>)"
proof -
  let ?q = "conflictQuery cid (newDate sd) (newDate ed) x"
  have q: "?q b"
    using assms(8-12) by (simp add: conflictQuery_iff)
  then have mem: "b \<in> set (filter ?q (bookings st))"
    using assms(7) by simp
  then have ne: "filter ?q (bookings st) \<noteq> []"
    by (metis empty_iff list.set(1))
  have bl: "\<not> list_ex (\<lambda>p. newDate sd \<le> periodEnd p \<and> newDate ed \<ge> periodStart p)
                (unavailableDates c)"
    and ma: "\<not> list_ex (\<lambda>m. newDate sd \<le> periodEnd m \<and> newDate ed \<ge> periodStart m)
                (maintenanceSchedule c)"
    using assms(5,6) by (simp_all add: list_ex_iff)
  have 1: "checkCarAvailability st cid sd ed x
           = \<lparr> isAvailable = False,
               reason = Some ''Car is already booked for the selected dates'',
               conflictingBookings = Some (map toConflict (filter ?q (bookings st))),
               availableCar = None \<rparr>"
    using assms(3,4) bl ma ne
    by (simp add: checkCarAvailability_car [OF assms(1,2)])
  have 2: "checkCarAvailability
                   (st\<lparr> bookings := map (\<lambda>y. y\<lparr> startTime := f y, endTime := g y \<rparr>)
                                          (bookings st) \<rparr>) cid sd ed x
                 = \<lparr> isAvailable = False,
                     reason = Some ''Car is already booked for the selected dates'',
                     conflictingBookings =
                       Some (map toConflict
                              (map (\<lambda>y. y\<lparr> startTime := f y, endTime := g y \<rparr>)
                                 (filter ?q (bookings st)))),
                     availableCar = None \<rparr>" for f g
  proof -
    let ?st = "st\<lparr> bookings := map (\<lambda>y. y\<lparr> startTime := f y, endTime := g y \<rparr>) (bookings st) \<rparr>"
    have s: "\<not> storeFails ?st" "Car_findById ?st cid = Some c"
      using assms(1,2) by (simp_all add: Car_findById_def)
    have "filter ?q (bookings ?st)
            = map (\<lambda>y. y\<lparr> startTime := f y, endTime := g y \<rparr>) (filter ?q (bookings st))"
      by (simp add: conflictQuery_filter_times)
    then show ?thesis
      using assms(3,4) bl ma ne
      by (simp add: checkCarAvailability_car [OF s])
  qed
  show ?thesis
    using 1 mem 2 by blast
qed

text \<open>
  The example booking ends on day 32 at 10:00. A request from day 32 at 15:00 starts
  five hours later, and is answered with the booking as a conflict.
\<close>

theorem C10_date_granularity_witness:
  "checkCarAvailability exampleStore 1 (DateString 32) (DateString 33) None
     = \<lparr> isAvailable = False,
         reason = Some ''Car is already booked for the selected dates'',
         conflictingBookings =
           Some [\<lparr> conflictId = 1, conflictStartDate = 30 * msPerDay,
                   conflictEndDate = 32 * msPerDay, conflictStartTime = HM 9 0,
                   conflictEndTime = HM 10 0 \<rparr>],
         availableCar = None \<rparr>
   \<and> dateAtTime 0 (endDate exampleBooking) (endTime exampleBooking)
       < 32 * msPerDay + clockMs (HM 15 0)
   \<and> newDateT 0 (DateString 32) (HM 15 0) = Num (of_int (32 * msPerDay + clockMs (HM 15 0)))"
proof -
  have c: "\<not> (\<exists>p \<in> set (unavailableDates exampleCar).
                newDate (DateString 32) \<le> periodEnd p \<and> newDate (DateString 33) \<ge> periodStart p)"
      "\<not> (\<exists>m \<in> set (maintenanceSchedule exampleCar).
                newDate (DateString 32) \<le> periodEnd m \<and> newDate (DateString 33) \<ge> periodStart m)"
    by (simp_all add: example_defs time_defs)
  have b: "exampleBooking \<in> set (bookings exampleStore)" "bookedCar exampleBooking = 1"
      "status exampleBooking = Pending \<or> status exampleBooking = Confirmed
       \<or> status exampleBooking = Active"
      "None \<noteq> Some (bookingId exampleBooking)"
      "startDate exampleBooking \<le> newDate (DateString 33)"
      "newDate (DateString 32) \<le> endDate exampleBooking"
    by (simp_all add: example_defs time_defs)
  have f: "filter (conflictQuery 1 (newDate (DateString 32)) (newDate (DateString 33)) None)
             (bookings exampleStore) = [exampleBooking]"
    by (simp add: example_defs conflictQuery_def time_defs)
  have t: "dateAtTime 0 (endDate exampleBooking) (endTime exampleBooking)
       < 32 * msPerDay + clockMs (HM 15 0)"
    by (simp add: example_defs dateAtTime_def localDay_def time_defs)
  have r: "checkCarAvailability exampleStore 1 (DateString 32) (DateString 33) None
     = \<lparr> isAvailable = False,
         reason = Some ''Car is already booked for the selected dates'',
         conflictingBookings = Some (map toConflict [exampleBooking]),
         availableCar = None \<rparr>"
    using C10_date_granularity [OF example_store_facts c b] unfolding f by blast
  show ?thesis
    unfolding r using t by (simp add: toConflict_def example_defs)
qed

text \<open>The same request through Create-booking.\<close>

lemma createBooking_same_day_conflict:
  "fst (createBooking 0 0 exampleStore exampleUser exampleBody)
     = (respond 400 False ''Car is already booked for the selected dates'')
         \<lparr> respConflictingBookings :=
             Some [\<lparr> conflictId = 1, conflictStartDate = 30 * msPerDay,
                     conflictEndDate = 32 * msPerDay, conflictStartTime = HM 9 0,
                     conflictEndTime = HM 10 0 \<rparr>] \<rparr>"
  by code_simp

text \<open>
  And through Update-booking: the booking of days 40 to 41 is moved to day 32 at
  15:00, and meets the example booking.
\<close>

lemma updateBooking_same_day_conflict:
  "updateBooking 0 0 (storeAfterCreate 0) exampleUser 2
     \<lparr> uStartDate = Some 32, uEndDate = Some 33, uStartTime = Some (HM 15 0),
       uEndTime = Some (HM 15 0), uSpecialRequests = None \<rparr>
     = (respond 400 False ''Car is already booked for the selected dates'', storeAfterCreate 0)"
  by code_simp

section \<open>Create-booking: the validation sequence\<close>

lemma createBooking_dates_invalid:
  assumes "cCarId body = Some cid" "cStartDate body = Some sd" "cEndDate body = Some ed"
      "cStartTime body = Some st'" "cEndTime body = Some et" "cPaymentMethod body = Some pm" "pm \<noteq> []"
      and "\<not> isValid (validateBookingDates now tz (DateString sd) (DateString ed) st' et)"
  shows "createBooking now tz st u body =
     ((respond 400 False ''Invalid booking dates'')
        \<lparr> respErrors := Some (errors (validateBookingDates now tz (DateString sd) (DateString ed) st' et)) \<rparr>, st)"
  using assms by (simp add: createBooking_def Let_def)

lemma createBooking_license_invalid:
  assumes "cCarId body = Some cid" "cStartDate body = Some sd" "cEndDate body = Some ed"
      "cStartTime body = Some st'" "cEndTime body = Some et" "cPaymentMethod body = Some pm" "pm \<noteq> []"
      and "isValid (validateBookingDates now tz (DateString sd) (DateString ed) st' et)"
      and "lv = validateDriverLicense now
                 (case cDriverDetails body of None \<Rightarrow> None | Some dd \<Rightarrow> licenseNumber dd)
                 (case cDriverDetails body of None \<Rightarrow> None | Some dd \<Rightarrow> licenseExpiry dd)"
      and "\<not> isValid lv"
  shows "createBooking now tz st u body =
     ((respond 400 False ''Invalid driver license'') \<lparr> respErrors := Some (errors lv) \<rparr>, st)"
  using assms by (simp add: createBooking_def Let_def)

lemma createBooking_pickup_invalid:
  assumes "cCarId body = Some cid" "cStartDate body = Some sd" "cEndDate body = Some ed"
      "cStartTime body = Some st'" "cEndTime body = Some et" "cPaymentMethod body = Some pm" "pm \<noteq> []"
      and "isValid (validateBookingDates now tz (DateString sd) (DateString ed) st' et)"
      and "isValid (validateDriverLicense now
                 (case cDriverDetails body of None \<Rightarrow> None | Some dd \<Rightarrow> licenseNumber dd)
                 (case cDriverDetails body of None \<Rightarrow> None | Some dd \<Rightarrow> licenseExpiry dd))"
      and "cPickupLocation body = Some pickup"
      and "\<not> isValid (validateLocation pickup ''Pickup'')"
  shows "createBooking now tz st u body =
     ((respond 400 False ''Invalid pickup location'')
        \<lparr> respErrors := Some (errors (validateLocation pickup ''Pickup'')) \<rparr>, st)"
  using assms by (simp add: createBooking_def Let_def)

lemma createBooking_dropoff_invalid:
  assumes "cCarId body = Some cid" "cStartDate body = Some sd" "cEndDate body = Some ed"
      "cStartTime body = Some st'" "cEndTime body = Some et" "cPaymentMethod body = Some pm" "pm \<noteq> []"
      and "isValid (validateBookingDates now tz (DateString sd) (DateString ed) st' et)"
      and "isValid (validateDriverLicense now
                 (case cDriverDetails body of None \<Rightarrow> None | Some dd \<Rightarrow> licenseNumber dd)
                 (case cDriverDetails body of None \<Rightarrow> None | Some dd \<Rightarrow> licenseExpiry dd))"
      and "cPickupLocation body = Some pickup"
      and "isValid (validateLocation pickup ''Pickup'')"
      and "cDropoffLocation body = Some dropoff"
      and "\<not> isValid (validateLocation dropoff ''Dropoff'')"
  shows "createBooking now tz st u body =
     ((respond 400 False ''Invalid dropoff location'')
        \<lparr> respErrors := Some (errors (validateLocation dropoff ''Dropoff'')) \<rparr>, st)"
  using assms by (simp add: createBooking_def Let_def)

text \<open>
  C4, as the code has it. When a sub-validator of Create-booking fails, the answer
  carries the violations of that sub-validator alone: the first that fails in the
  order dates, driver license, pickup location, dropoff location. The later
  sub-validators are not run.
\<close>

theorem C4_first_failing_validator:
  assumes "cCarId body = Some cid" and "cStartDate body = Some sd" and "cEndDate body = Some ed"
      and "cStartTime body = Some st'" and "cEndTime body = Some et"
      and "cPaymentMethod body = Some pm" and "pm \<noteq> []"
      and "cPickupLocation body = Some pickup" and "cDropoffLocation body = Some dropoff"
      and "dv = validateBookingDates now tz (DateString sd) (DateString ed) st' et"
      and "lv = validateDriverLicense now
                 (case cDriverDetails body of None \<Rightarrow> None | Some dd \<Rightarrow> licenseNumber dd)
                 (case cDriverDetails body of None \<Rightarrow> None | Some dd \<Rightarrow> licenseExpiry dd)"
      and "pv = validateLocation pickup ''Pickup''"
      and "ov = validateLocation dropoff ''Dropoff''"
  shows "(\<not> isValid dv \<longrightarrow>
            createBooking now tz st u body =
              ((respond 400 False ''Invalid booking dates'') \<lparr> respErrors := Some (errors dv) \<rparr>, st))
       \<and> (isValid dv \<and> \<not> isValid lv \<longrightarrow>
            createBooking now tz st u body =
              ((respond 400 False ''Invalid driver license'') \<lparr> respErrors := Some (errors lv) \<rparr>, st))
       \<and> (isValid dv \<and> isValid lv \<and> \<not> isValid pv \<longrightarrow>
            createBooking now tz st u body =
              ((respond 400 False ''Invalid pickup location'') \<lparr> respErrors := Some (errors pv) \<rparr>, st))
       \<and> (isValid dv \<and> isValid lv \<and> isValid pv \<and> \<not> isValid ov \<longrightarrow>
            createBooking now tz st u body =
              ((respond 400 False ''Invalid dropoff location'') \<lparr> respErrors := Some (errors ov) \<rparr>, st))"
proof (intro conjI impI)
  assume "\<not> isValid dv"
  then show "createBooking now tz st u body =
      ((respond 400 False ''Invalid booking dates'') \<lparr> respErrors := Some (errors dv) \<rparr>, st)"
    using createBooking_dates_invalid [OF assms(1-7)] assms(10) by simp
next
  assume "isValid dv \<and> \<not> isValid lv"
  then show "createBooking now tz st u body =
      ((respond 400 False ''Invalid driver license'') \<lparr> respErrors := Some (errors lv) \<rparr>, st)"
    using createBooking_license_invalid [OF assms(1-7) _ assms(11)] assms(10) by simp
next
  assume "isValid dv \<and> isValid lv \<and> \<not> isValid pv"
  then show "createBooking now tz st u body =
      ((respond 400 False ''Invalid pickup location'') \<lparr> respErrors := Some (errors pv) \<rparr>, st)"
    using createBooking_pickup_invalid [OF assms(1-7) _ _ assms(8)] assms(10-12) by simp
next
  assume "isValid dv \<and> isValid lv \<and> isValid pv \<and> \<not> isValid ov"
  then show "createBooking now tz st u body =
      ((respond 400 False ''Invalid dropoff location'') \<lparr> respErrors := Some (errors ov) \<rparr>, st)"
    using createBooking_dropoff_invalid [OF assms(1-7) _ _ assms(8) _ assms(9)] assms(10-13)
    by simp
qed

text \<open>
  The request \<open>badBody\<close> ends before it starts, has no driver details and no pickup
  city. The answer lists the two violations of the dates; the two of the driver
  license and the one of the pickup location are not in it.
\<close>

theorem C4_counterexample:
  "respErrors (fst (createBooking 0 0 exampleStore exampleUser badBody))
     = Some [''End date and time must be after start date and time'',
             ''Booking must be at least 1 hour long'']
   \<and> errors (validateDriverLicense 0 None None)
     = [''Driver license number is required'', ''Driver license expiry date is required'']
   \<and> errors (validateLocation (exampleLocation \<lparr> city := None \<rparr>) ''Pickup'')
     = [''Pickup city is required'']"
  by code_simp

text \<open>The same request, and one whose only fault is the missing driver details.\<close>

theorem C4_first_failing_validator_witness:
  "createBooking 0 0 exampleStore exampleUser badBody
     = ((respond 400 False ''Invalid booking dates'')
          \<lparr> respErrors := Some [''End date and time must be after start date and time'',
                                ''Booking must be at least 1 hour long''] \<rparr>, exampleStore)
   \<and> createBooking 0 0 exampleStore exampleUser (exampleBody \<lparr> cDriverDetails := None \<rparr>)
     = ((respond 400 False ''Invalid driver license'')
          \<lparr> respErrors := Some [''Driver license number is required'',
                                ''Driver license expiry date is required''] \<rparr>, exampleStore)"
proof -
  have dv: "validateBookingDates 0 0 (DateString 33) (DateString 32) (HM 15 0) (HM 15 0)
      = \<lparr> isValid = False,
          errors = [''End date and time must be after start date and time'',
                    ''Booking must be at least 1 hour long''],
          duration = \<lparr> hours = Num (- 24), days = Num (- 1) \<rparr> \<rparr>"
    by code_simp
  have dv': "isValid (validateBookingDates 0 0 (DateString 32) (DateString 33) (HM 15 0) (HM 15 0))"
    by code_simp
  have lv: "validateDriverLicense 0 None None
      = \<lparr> isValid = False,
          errors = [''Driver license number is required'',
                    ''Driver license expiry date is required''] \<rparr>"
    by code_simp
  show ?thesis
    using C4_first_failing_validator [of badBody 1 33 32 "HM 15 0" "HM 15 0" "''cash''"
            "exampleLocation \<lparr> city := None \<rparr>" exampleLocation _ 0 0 _ _ _ exampleStore exampleUser,
            OF _ _ _ _ _ _ _ _ _ refl refl refl refl]
          C4_first_failing_validator [of "exampleBody \<lparr> cDriverDetails := None \<rparr>" 1 32 33
            "HM 15 0" "HM 15 0" "''cash''" exampleLocation exampleLocation _ 0 0 _ _ _
            exampleStore exampleUser, OF _ _ _ _ _ _ _ _ _ refl refl refl refl]
    by (simp add: badBody_def exampleBody_def dv dv' lv)
qed

section \<open>Writes to the store\<close>

lemma find_replace:
  assumes "find (\<lambda>y. f y = i) xs = Some x" and "f z = i"
  shows "find (\<lambda>y. f y = i) (map (\<lambda>y. if f y = i then z else y) xs) = Some z"
  using assms by (induction xs) (auto split: if_splits)

lemma Booking_findById_id:
  "Booking_findById st bid = Some b \<Longrightarrow> bookingId b = bid"
  by (auto simp add: Booking_findById_def find_Some_iff)

lemma Booking_findById_replace:
  assumes "Booking_findById st bid = Some b" and "bookingId b' = bid"
  shows "Booking_findById (replaceBooking b' st) bid = Some b'"
  using assms unfolding Booking_findById_def replaceBooking_def
  using find_replace [where f = bookingId] by simp

lemma Car_findById_id:
  "Car_findById st cid = Some c \<Longrightarrow> carId c = cid"
  by (auto simp add: Car_findById_def find_Some_iff)

lemma Car_findById_replace:
  assumes "Car_findById st cid = Some c" and "carId c' = cid"
  shows "Car_findById (replaceCar c' st) cid = Some c'"
  using assms unfolding Car_findById_def replaceCar_def
  using find_replace [where f = carId] by simp

lemma Booking_findById_replaceCar [simp]:
  "Booking_findById (replaceCar c st) bid = Booking_findById st bid"
  by (simp add: Booking_findById_def replaceCar_def)

lemma Car_findById_replaceBooking [simp]:
  "Car_findById (replaceBooking b st) cid = Car_findById st cid"
  by (simp add: Car_findById_def replaceBooking_def)

lemma storeFails_replace [simp]:
  "storeFails (replaceCar c st) = storeFails st"
  "storeFails (replaceBooking b st) = storeFails st"
  by (simp_all add: replaceCar_def replaceBooking_def)

lemma bookingSchemaErrors_Nil:
  "bookingSchemaErrors b = [] \<longleftrightarrow>
     intervalErrors b = [] \<and> pricingErrors b = [] \<and> durationErrors b = []
     \<and> paymentMethodErrors b = [] \<and> specialRequestsErrors b = [] \<and> insuranceErrors b = []
     \<and> bookingRatingErrors b = [] \<and> cancellationErrors b = []"
  by (simp add: bookingSchemaErrors_def)

lemma numberErrors_Nil:
  "numberErrors path lo msg x = [] \<longleftrightarrow> (case x of None \<Rightarrow> False | Some v \<Rightarrow> lo \<le> v)"
  by (cases x) (auto simp add: numberErrors_def)

lemma exampleBooking_valid: "bookingSchemaErrors exampleBooking = []"
  by code_simp

lemma confirmedBooking_valid: "bookingSchemaErrors confirmedBooking = []"
  by code_simp

section \<open>Cancel-booking\<close>

lemma calculateRefund_cases:
  "canBeCancelled now tz b \<Longrightarrow>
   calculateRefund now tz b =
     (if hoursUntilStart now tz b \<ge> 48 then bTotalPrice b
      else if hoursUntilStart now tz b \<ge> 24 then num_mul (bTotalPrice b) (Num (1 / 2))
      else Num 0)"
  by (simp add: calculateRefund_def)

lemma calculateRefund_valid:
  assumes "pricingErrors b = []"
  shows "numberErrors path 0 msg (calculateRefund now tz b) = []"
proof -
  from assms obtain t where "bTotalPrice b = Some t" "0 \<le> t"
    by (auto simp add: pricingErrors_def numberErrors_Nil split: option.splits)
  then show ?thesis
    by (simp add: calculateRefund_def numberErrors_Nil num_arith_simps)
qed

lemma cancelBooking_rejected:
  assumes "\<not> storeFails st" and "Booking_findById st bid = Some b"
      and "user b = userId u \<or> userRole u = RoleAdmin"
      and "\<not> canBeCancelled now tz b"
  shows "cancelBooking now tz st u bid r =
           (respond 400 False ''Booking cannot be cancelled at this time'', st)"
  using assms by (auto simp add: cancelBooking_def)

lemma cancelBooking_saved:
  assumes "\<not> storeFails st" and "Booking_findById st bid = Some b"
      and "user b = userId u \<or> userRole u = RoleAdmin"
      and "canBeCancelled now tz b"
      and "bookingSchemaErrors b = []"
      and "dateAtTime tz (startDate b) (startTime b) < dateAtTime tz (endDate b) (endTime b)"
  shows "\<exists>b'. cancelBooking now tz st u bid r =
           ((respond 200 True ''Booking cancelled successfully'')
              \<lparr> respRefundAmount := Some (calculateRefund now tz b),
                respBooking := Some b' \<rparr>,
            replaceBooking b' st)
         \<and> bookingId b' = bid \<and> status b' = Cancelled
         \<and> refundAmount b' = calculateRefund now tz b
         \<and> cancelledAt b' = Some now \<and> cancelledBy b' = Some (userId u)
         \<and> paymentStatus b' = paymentStatus b \<and> bTotalPrice b' = bTotalPrice b"
proof -
  let ?c = "b \<lparr> status := Cancelled,
                 cancelReason := Some (case r of None \<Rightarrow> ''Cancelled by user''
                                       | Some t \<Rightarrow> if t = [] then ''Cancelled by user'' else t),
                 cancelledAt := Some now,
                 cancelledBy := Some (userId u),
                 refundAmount := calculateRefund now tz b \<rparr>"
  have same: "intervalErrors ?c = intervalErrors b" "pricingErrors ?c = pricingErrors b"
      "durationErrors ?c = durationErrors b" "paymentMethodErrors ?c = paymentMethodErrors b"
      "specialRequestsErrors ?c = specialRequestsErrors b" "insuranceErrors ?c = insuranceErrors b"
      "bookingRatingErrors ?c = bookingRatingErrors b"
    by (simp_all add: intervalErrors_def pricingErrors_def durationErrors_def
        paymentMethodErrors_def specialRequestsErrors_def insuranceErrors_def
        bookingRatingErrors_def)
  have "pricingErrors b = []"
    using assms(5) by (simp add: bookingSchemaErrors_Nil)
  then have "cancellationErrors ?c = []"
    by (simp add: cancellationErrors_def calculateRefund_valid)
  then have valid: "bookingSchemaErrors ?c = []"
    using assms(5) by (simp add: bookingSchemaErrors_Nil same)
  obtain d where hook: "preSave tz ?c = Some d" and d: "bookingId d = bookingId b"
      "status d = Cancelled" "refundAmount d = calculateRefund now tz b"
      "cancelledAt d = Some now" "cancelledBy d = Some (userId u)"
      "paymentStatus d = paymentStatus b" "bTotalPrice d = bTotalPrice b"
    using assms(6) by (simp add: preSave_def Let_def)
  have "Booking_save tz st ?c = Some (d, replaceBooking d st)"
    by (simp add: Booking_save_def valid hook)
  then have "cancelBooking now tz st u bid r =
           ((respond 200 True ''Booking cancelled successfully'')
              \<lparr> respRefundAmount := Some (calculateRefund now tz b),
                respBooking := Some d \<rparr>,
            replaceBooking d st)"
    using assms(1-4) by (auto simp add: cancelBooking_def Let_def)
  then show ?thesis
    using d Booking_findById_id [OF assms(2)] by auto
qed

lemma cancelBooking_not_rejected:
  assumes "\<not> storeFails st" and "Booking_findById st bid = Some b"
      and "user b = userId u \<or> userRole u = RoleAdmin"
      and "canBeCancelled now tz b"
  shows "httpStatus (fst (cancelBooking now tz st u bid r)) = 200
       \<or> httpStatus (fst (cancelBooking now tz st u bid r)) = 500"
  using assms
  by (auto simp add: cancelBooking_def Let_def respond_def serverError_def split: option.splits)

text \<open>
  The decision of Cancel-booking over the hours its methods count
  (\<open>hoursUntilStart\<close>). For a booking that is found, and a caller who owns it or is an
  admin: the cancellation is rejected exactly when the status is not pending and
  not (confirmed with more than 24 of these hours). A confirmed booking with 24 or
  less is rejected and nothing is written; a pending or such a confirmed booking
  whose document passes its \<open>save\<close> is cancelled.
\<close>

lemma cancelBooking_rejected_iff:
  assumes "\<not> storeFails st" and "Booking_findById st bid = Some b"
      and "user b = userId u \<or> userRole u = RoleAdmin"
  shows "(fst (cancelBooking now tz st u bid r)
            = respond 400 False ''Booking cannot be cancelled at this time''
          \<longleftrightarrow> \<not> (status b = Pending
                 \<or> status b = Confirmed \<and> hoursUntilStart now tz b > 24))
       \<and> (status b = Confirmed \<and> hoursUntilStart now tz b \<le> 24 \<longrightarrow>
            cancelBooking now tz st u bid r
              = (respond 400 False ''Booking cannot be cancelled at this time'', st))
       \<and> ((status b = Pending \<or> status b = Confirmed \<and> hoursUntilStart now tz b > 24)
           \<and> bookingSchemaErrors b = []
           \<and> dateAtTime tz (startDate b) (startTime b) < dateAtTime tz (endDate b) (endTime b)
           \<longrightarrow> httpStatus (fst (cancelBooking now tz st u bid r)) = 200
               \<and> (\<exists>b'. Booking_findById (snd (cancelBooking now tz st u bid r)) bid = Some b'
                        \<and> status b' = Cancelled))"
proof (intro conjI impI)
  show "fst (cancelBooking now tz st u bid r)
            = respond 400 False ''Booking cannot be cancelled at this time''
          \<longleftrightarrow> \<not> (status b = Pending
                 \<or> status b = Confirmed \<and> hoursUntilStart now tz b > 24)"
  proof (cases "canBeCancelled now tz b")
    case True
    from cancelBooking_not_rejected [OF assms True, of r]
    have "fst (cancelBooking now tz st u bid r)
            \<noteq> respond 400 False ''Booking cannot be cancelled at this time''"
      by (auto simp add: respond_def)
    with True show ?thesis by (simp add: canBeCancelled_def)
  next
    case False
    with cancelBooking_rejected [OF assms False, of r] show ?thesis
      by (simp add: canBeCancelled_def)
  qed
next
  assume "status b = Confirmed \<and> hoursUntilStart now tz b \<le> 24"
  then have "\<not> canBeCancelled now tz b" by (simp add: canBeCancelled_def)
  then show "cancelBooking now tz st u bid r
              = (respond 400 False ''Booking cannot be cancelled at this time'', st)"
    by (rule cancelBooking_rejected [OF assms])
next
  assume a: "(status b = Pending \<or> status b = Confirmed \<and> hoursUntilStart now tz b > 24)
           \<and> bookingSchemaErrors b = []
           \<and> dateAtTime tz (startDate b) (startTime b) < dateAtTime tz (endDate b) (endTime b)"
  then have c: "canBeCancelled now tz b" by (simp add: canBeCancelled_def)
  from cancelBooking_saved [OF assms c, of r] a obtain b' where
    eq: "cancelBooking now tz st u bid r =
           ((respond 200 True ''Booking cancelled successfully'')
              \<lparr> respRefundAmount := Some (calculateRefund now tz b),
                respBooking := Some b' \<rparr>,
            replaceBooking b' st)"
    and b': "bookingId b' = bid" "status b' = Cancelled"
    by blast
  show "httpStatus (fst (cancelBooking now tz st u bid r)) = 200"
    by (simp add: eq respond_def)
  show "\<exists>b'. Booking_findById (snd (cancelBooking now tz st u bid r)) bid = Some b'
                        \<and> status b' = Cancelled"
    using Booking_findById_replace [OF assms(2) b'(1)] b'(2) by (simp add: eq)
qed

text \<open>
  On a server at UTC the example booking starts on day 30 at 09:00. Confirmed, it
  cannot be cancelled nine hours before, and can 33 hours before; pending, it can
  nine hours before.
\<close>

lemma cancelBooking_rejected_iff_example:
  "cancelBooking (30 * msPerDay) 0 confirmedStore exampleUser 1 None
     = (respond 400 False ''Booking cannot be cancelled at this time'', confirmedStore)
   \<and> httpStatus (fst (cancelBooking (30 * msPerDay) 0 exampleStore exampleUser 1 None)) = 200
   \<and> httpStatus (fst (cancelBooking (29 * msPerDay) 0 confirmedStore exampleUser 1 None)) = 200"
proof -
  have c: "\<not> storeFails confirmedStore" "Booking_findById confirmedStore 1 = Some confirmedBooking"
      "user confirmedBooking = userId exampleUser \<or> userRole exampleUser = RoleAdmin"
    by (simp_all add: example_defs Booking_findById_def)
  have p: "\<not> storeFails exampleStore" "Booking_findById exampleStore 1 = Some exampleBooking"
      "user exampleBooking = userId exampleUser \<or> userRole exampleUser = RoleAdmin"
    by (simp_all add: example_defs Booking_findById_def)
  have late: "status confirmedBooking = Confirmed
              \<and> hoursUntilStart (30 * msPerDay) 0 confirmedBooking \<le> 24"
    by (simp add: example_defs hoursUntilStart_def dateAtTime_def localDay_def time_defs)
  have early: "(status confirmedBooking = Pending
                \<or> status confirmedBooking = Confirmed
                  \<and> hoursUntilStart (29 * msPerDay) 0 confirmedBooking > 24)
               \<and> bookingSchemaErrors confirmedBooking = []
               \<and> dateAtTime 0 (startDate confirmedBooking) (startTime confirmedBooking)
                  < dateAtTime 0 (endDate confirmedBooking) (endTime confirmedBooking)"
    by (simp add: confirmedBooking_valid)
       (simp add: example_defs hoursUntilStart_def dateAtTime_def localDay_def time_defs)
  have pending: "(status exampleBooking = Pending
                \<or> status exampleBooking = Confirmed
                  \<and> hoursUntilStart (30 * msPerDay) 0 exampleBooking > 24)
               \<and> bookingSchemaErrors exampleBooking = []
               \<and> dateAtTime 0 (startDate exampleBooking) (startTime exampleBooking)
                  < dateAtTime 0 (endDate exampleBooking) (endTime exampleBooking)"
    by (simp add: exampleBooking_valid)
       (simp add: example_defs hoursUntilStart_def dateAtTime_def localDay_def time_defs)
  show ?thesis
    using cancelBooking_rejected_iff [OF c, of "30 * msPerDay" 0 None]
          cancelBooking_rejected_iff [OF c, of "29 * msPerDay" 0 None]
          cancelBooking_rejected_iff [OF p, of "30 * msPerDay" 0 None]
          late early pending
    by blast
qed

text \<open>
  The refund over the hours the methods count. For a cancellable booking whose
  document passes its \<open>save\<close>, cancelled by its owner or an admin: the refund is
  the total price at 48 of these hours or more, half of it at 24 or more and fewer
  than 48, and 0 otherwise. The amount is answered and written to the booking,
  which becomes cancelled; the payment status, the price and the cars are left as
  they were.
\<close>

lemma cancelBooking_refund_tiers:
  assumes "\<not> storeFails st" and "Booking_findById st bid = Some b"
      and "user b = userId u \<or> userRole u = RoleAdmin"
      and "canBeCancelled now tz b"
      and "bookingSchemaErrors b = []"
      and "dateAtTime tz (startDate b) (startTime b) < dateAtTime tz (endDate b) (endTime b)"
  shows "calculateRefund now tz b =
           (if hoursUntilStart now tz b \<ge> 48 then bTotalPrice b
            else if hoursUntilStart now tz b \<ge> 24 then num_mul (bTotalPrice b) (Num (1 / 2))
            else Num 0)
       \<and> httpStatus (fst (cancelBooking now tz st u bid r)) = 200
       \<and> respRefundAmount (fst (cancelBooking now tz st u bid r))
           = Some (calculateRefund now tz b)
       \<and> (\<exists>b'. Booking_findById (snd (cancelBooking now tz st u bid r)) bid = Some b'
                \<and> status b' = Cancelled
                \<and> refundAmount b' = calculateRefund now tz b
                \<and> paymentStatus b' = paymentStatus b
                \<and> bTotalPrice b' = bTotalPrice b)
       \<and> cars (snd (cancelBooking now tz st u bid r)) = cars st"
proof -
  from cancelBooking_saved [OF assms, of r] obtain b' where
    eq: "cancelBooking now tz st u bid r =
           ((respond 200 True ''Booking cancelled successfully'')
              \<lparr> respRefundAmount := Some (calculateRefund now tz b),
                respBooking := Some b' \<rparr>,
            replaceBooking b' st)"
    and b': "bookingId b' = bid" "status b' = Cancelled"
      "refundAmount b' = calculateRefund now tz b"
      "paymentStatus b' = paymentStatus b" "bTotalPrice b' = bTotalPrice b"
    by blast
  have "Booking_findById (replaceBooking b' st) bid = Some b'"
    by (rule Booking_findById_replace [OF assms(2) b'(1)])
  then show ?thesis
    using b' calculateRefund_cases [OF assms(4)]
    by (simp add: eq respond_def replaceBooking_def)
qed

text \<open>
  On a server at UTC: the pending example booking, cancelled 50, 30 and 10 hours
  before its start.
\<close>

lemma cancelBooking_refund_tiers_example:
  "respRefundAmount (fst (cancelBooking (679 * msPerHour) 0 exampleStore exampleUser 1 None))
     = Some (Num 256)
   \<and> respRefundAmount (fst (cancelBooking (699 * msPerHour) 0 exampleStore exampleUser 1 None))
     = Some (Num 128)
   \<and> respRefundAmount (fst (cancelBooking (719 * msPerHour) 0 exampleStore exampleUser 1 None))
     = Some (Num 0)"
proof -
  have p: "\<not> storeFails exampleStore" "Booking_findById exampleStore 1 = Some exampleBooking"
      "user exampleBooking = userId exampleUser \<or> userRole exampleUser = RoleAdmin"
    by (simp_all add: example_defs Booking_findById_def)
  have c: "canBeCancelled now 0 exampleBooking" for now
    by (simp add: canBeCancelled_def example_defs)
  have d: "dateAtTime 0 (startDate exampleBooking) (startTime exampleBooking)
                  < dateAtTime 0 (endDate exampleBooking) (endTime exampleBooking)"
    by (simp add: example_defs dateAtTime_def localDay_def time_defs)
  have h: "hoursUntilStart (679 * msPerHour) 0 exampleBooking = 50"
      "hoursUntilStart (699 * msPerHour) 0 exampleBooking = 30"
      "hoursUntilStart (719 * msPerHour) 0 exampleBooking = 10"
    by (simp_all add: example_defs hoursUntilStart_def dateAtTime_def localDay_def time_defs)
  have t: "bTotalPrice exampleBooking = Num 256"
    by (simp add: example_defs)
  show ?thesis
    using cancelBooking_refund_tiers [OF p c exampleBooking_valid d, of "679 * msPerHour" None]
          cancelBooking_refund_tiers [OF p c exampleBooking_valid d, of "699 * msPerHour" None]
          cancelBooking_refund_tiers [OF p c exampleBooking_valid d, of "719 * msPerHour" None]
    by (simp add: h t num_arith_simps)
qed

subsection \<open>West of UTC\<close>

text \<open>
  The hours the methods count, for a booking whose stored start date is that of a
  request, against the start instant \<open>s\<close> the validator reads from the request: the
  same at or east of UTC, and 24 hours fewer west of UTC.
\<close>

lemma hoursUntilStart_east:
  assumes "0 \<le> tz" and "tz < msPerDay" and "validClock (startTime b)"
      and "startDate b = newDate (DateString d)"
      and "newDateT tz (DateString d) (startTime b) = Num (of_int s)"
  shows "hoursUntilStart now tz b = of_int (s - now) / 3600000"
proof -
  have "dateAtTime tz (startDate b) (startTime b) = s"
    using dateAtTime_request [OF assms(1-3), of d] assms(4,5) by simp
  then show ?thesis
    by (simp add: hoursUntilStart_def)
qed

lemma hoursUntilStart_west:
  assumes "- msPerDay \<le> tz" and "tz < 0" and "validClock (startTime b)"
      and "startDate b = newDate (DateString d)"
      and "newDateT tz (DateString d) (startTime b) = Num (of_int s)"
  shows "hoursUntilStart now tz b = of_int (s - now) / 3600000 - 24"
proof -
  have "dateAtTime tz (startDate b) (startTime b) + msPerDay = s"
    using dateAtTime_request_west [OF assms(1-3), of d] assms(4,5) by simp
  then have "dateAtTime tz (startDate b) (startTime b) = s - 86400000"
    by (simp add: msPerDay_def)
  then show ?thesis
    by (simp add: hoursUntilStart_def diff_divide_distrib)
qed

text \<open>
  C2. The confirmed example booking, of day 30 at 09:00, on a server five hours west
  of UTC, 30 hours before the start instant the validator reads from that date and
  time. The methods of the booking count 6 hours to the start, and the cancellation
  is rejected with nothing written. On a server at UTC the cancellation 30 hours
  before the start is answered with 200.
\<close>

theorem C2_confirmed_booking_refused_west_of_UTC:
  "status confirmedBooking = Confirmed
   \<and> startDate confirmedBooking = newDate (DateString 30)
   \<and> startTime confirmedBooking = HM 9 0
   \<and> newDateT west (DateString 30) (HM 9 0)
       = Num (of_int ((29 * msPerDay + 8 * msPerHour) + 30 * msPerHour))
   \<and> hoursUntilStart (29 * msPerDay + 8 * msPerHour) west confirmedBooking = 6
   \<and> cancelBooking (29 * msPerDay + 8 * msPerHour) west confirmedStore exampleUser 1 None
       = (respond 400 False ''Booking cannot be cancelled at this time'', confirmedStore)
   \<and> newDateT 0 (DateString 30) (HM 9 0)
       = Num (of_int ((29 * msPerDay + 3 * msPerHour) + 30 * msPerHour))
   \<and> httpStatus (fst (cancelBooking (29 * msPerDay + 3 * msPerHour) 0 confirmedStore
                       exampleUser 1 None)) = 200"
  by code_simp

text \<open>The rejection: status 400, and the store as it was.\<close>

theorem C2_confirmed_booking_refused_west_of_UTC_witness:
  "httpStatus (fst (cancelBooking (29 * msPerDay + 8 * msPerHour) west confirmedStore
                      exampleUser 1 None)) = 400
   \<and> snd (cancelBooking (29 * msPerDay + 8 * msPerHour) west confirmedStore exampleUser 1 None)
       = confirmedStore"
  using C2_confirmed_booking_refused_west_of_UTC
  by (simp add: respond_def)

text \<open>
  C3. On a server five hours west of UTC a pending booking of day 40 at 15:00 is
  made through Create-booking, at a total price of 140.50, and cancelled 49 hours
  before the start instant the validator read: the refund answered and written is
  70.25, the half. The pending example booking, cancelled 49 hours before its start
  there, is refunded 128 of 256. On a server at UTC the booking of day 40, cancelled
  49 hours before its start, is refunded in full.
\<close>

theorem C3_half_refund_49_hours_before_west_of_UTC:
  "httpStatus (fst (createBooking 0 west exampleStore exampleUser laterBody)) = 201
   \<and> map (\<lambda>b. (bookingId b, status b, startDate b, startTime b, bTotalPrice b))
        (bookings (storeAfterCreate west))
       = [(1, Pending, newDate (DateString 30), HM 9 0, Num 256),
          (2, Pending, newDate (DateString 40), HM 15 0, Num (1405 / 10))]
   \<and> newDateT west (DateString 40) (HM 15 0)
       = Num (of_int ((38 * msPerDay + 19 * msPerHour) + 49 * msPerHour))
   \<and> httpStatus (fst (cancelBooking (38 * msPerDay + 19 * msPerHour) west
                       (storeAfterCreate west) exampleUser 2 None)) = 200
   \<and> respRefundAmount (fst (cancelBooking (38 * msPerDay + 19 * msPerHour) west
                              (storeAfterCreate west) exampleUser 2 None))
       = Some (Num (7025 / 100))
   \<and> map refundAmount (bookings (snd (cancelBooking (38 * msPerDay + 19 * msPerHour) west
                                        (storeAfterCreate west) exampleUser 2 None)))
       = [Num 0, Num (7025 / 100)]
   \<and> newDateT west (DateString 30) (HM 9 0)
       = Num (of_int ((28 * msPerDay + 13 * msPerHour) + 49 * msPerHour))
   \<and> respRefundAmount (fst (cancelBooking (28 * msPerDay + 13 * msPerHour) west
                              exampleStore exampleUser 1 None))
       = Some (Num 128)
   \<and> newDateT 0 (DateString 40) (HM 15 0)
       = Num (of_int ((38 * msPerDay + 14 * msPerHour) + 49 * msPerHour))
   \<and> respRefundAmount (fst (cancelBooking (38 * msPerDay + 14 * msPerHour) 0
                              (storeAfterCreate 0) exampleUser 2 None))
       = Some (Num (1405 / 10))"
  by code_simp

text \<open>Neither of the two refunds west of UTC is the total price.\<close>

theorem C3_half_refund_49_hours_before_west_of_UTC_witness:
  "respRefundAmount (fst (cancelBooking (38 * msPerDay + 19 * msPerHour) west
                            (storeAfterCreate west) exampleUser 2 None))
     \<noteq> Some (Num (1405 / 10))
   \<and> respRefundAmount (fst (cancelBooking (28 * msPerDay + 13 * msPerHour) west
                              exampleStore exampleUser 1 None))
     \<noteq> Some (Num 256)"
  using C3_half_refund_49_hours_before_west_of_UTC
  by simp

section \<open>Update-booking\<close>

text \<open>
  C7. A booking marked as a no-show, updated by its user: first the special
  requests alone, then the whole interval. Both updates are answered with 200 and
  written; the status is none of pending and confirmed.
\<close>

theorem C7_no_show_booking_is_updated:
  "updateBooking 0 0 noShowStore exampleUser 1
     \<lparr> uStartDate = None, uEndDate = None, uStartTime = None, uEndTime = None,
       uSpecialRequests = Some ''child seat'' \<rparr>
     = ((respond 200 True ''Booking updated successfully'')
          \<lparr> respBooking := Some (noShowBooking \<lparr> specialRequests := Some ''child seat'' \<rparr>) \<rparr>,
        noShowStore \<lparr> bookings := [noShowBooking \<lparr> specialRequests := Some ''child seat'' \<rparr>] \<rparr>)
   \<and> httpStatus (fst (updateBooking 0 0 noShowStore exampleUser 1
        \<lparr> uStartDate = Some 40, uEndDate = Some 41, uStartTime = Some (HM 9 0),
          uEndTime = Some (HM 9 0), uSpecialRequests = None \<rparr>)) = 200
   \<and> map startDate (bookings (snd (updateBooking 0 0 noShowStore exampleUser 1
        \<lparr> uStartDate = Some 40, uEndDate = Some 41, uStartTime = Some (HM 9 0),
          uEndTime = Some (HM 9 0), uSpecialRequests = None \<rparr>))) = [40 * msPerDay]
   \<and> status noShowBooking = NoShow"
  by code_simp

text \<open>The first of the two updates: it succeeds and the booking is written.\<close>

theorem C7_no_show_booking_is_updated_witness:
  "success (fst (updateBooking 0 0 noShowStore exampleUser 1
     \<lparr> uStartDate = None, uEndDate = None, uStartTime = None, uEndTime = None,
       uSpecialRequests = Some ''child seat'' \<rparr>))
   \<and> map specialRequests (bookings (snd (updateBooking 0 0 noShowStore exampleUser 1
     \<lparr> uStartDate = None, uEndDate = None, uStartTime = None, uEndTime = None,
       uSpecialRequests = Some ''child seat'' \<rparr>))) = [Some ''child seat'']"
  using C7_no_show_booking_is_updated [THEN conjunct1]
  by (simp add: respond_def noShowStore_def)

text \<open>An active, completed or cancelled booking is not updated, and nothing is written.\<close>

lemma updateBooking_rejected:
  assumes "\<not> storeFails st" and "Booking_findById st bid = Some b"
      and "user b = userId u \<or> userRole u = RoleAdmin"
      and "status b = Active \<or> status b = Completed \<or> status b = Cancelled"
  shows "updateBooking now tz st u bid body
           = (respond 400 False ''Cannot update booking in current status'', st)"
  using assms by (auto simp add: updateBooking_def)

section \<open>Rate-booking\<close>

text \<open>
  A car rating between 1 and 5 keeps an average between 0 and 5 within these
  bounds, so the car passes the validators of its \<open>save\<close>.
\<close>

lemma updateRating_valid:
  assumes "0 \<le> ratingAverage c" "ratingAverage c \<le> 5" "1 \<le> r" "r \<le> 5"
  shows "carRatingErrors (updateRating c r) = []"
proof -
  let ?n = "of_nat (ratingCount c) :: rat"
  have n: "0 \<le> ?n" by simp
  have "ratingAverage c * ?n \<le> 5 * ?n"
    using assms(2) n by (rule mult_right_mono)
  then have up: "ratingAverage c * ?n + r \<le> 5 * (?n + 1)"
    using assms(4) by simp
  have "0 \<le> ratingAverage c * ?n"
    using assms(1) n by (rule mult_nonneg_nonneg)
  then have lo: "0 \<le> ratingAverage c * ?n + r"
    using assms(3) by simp
  have pos: "0 < ?n + 1" by (simp add: add_pos_nonneg)
  have "(ratingAverage c * ?n + r) / (?n + 1) \<le> 5"
    using up pos by (simp add: pos_divide_le_eq)
  moreover have "0 \<le> (ratingAverage c * ?n + r) / (?n + 1)"
    using lo pos by simp
  ultimately show ?thesis
    by (simp add: carRatingErrors_def updateRating_def Let_def add.commute)
qed

lemma rateBooking_200_D:
  assumes "httpStatus (fst (rateBooking now tz st u bid body)) = 200"
  shows "\<exists>b b' c r.
           Booking_findById st bid = Some b \<and> Car_findById st (bookedCar b) = Some c
         \<and> rCarRating body = Some r \<and> r \<noteq> 0 \<and> \<not> storeFails st
         \<and> user b = userId u \<and> status b = Completed
         \<and> bookingId b' = bid \<and> user b' = user b \<and> status b' = Completed
         \<and> carRating b' = Some r
         \<and> rateBooking now tz st u bid body =
             ((respond 200 True ''Booking rated successfully'') \<lparr> respBooking := Some b' \<rparr>,
              replaceCar (updateRating c r) (replaceBooking b' st))"
proof -
  from assms have t: "truthy_num (rCarRating body)" "truthy_num (rServiceRating body)"
    and nf: "\<not> storeFails st"
    by (auto simp add: rateBooking_def respond_def serverError_def split: if_splits)
  from t obtain r where r: "rCarRating body = Some r" "r \<noteq> 0"
    by (auto simp add: truthy_num_def split: option.splits)
  from assms t nf obtain b where b: "Booking_findById st bid = Some b"
    by (cases "Booking_findById st bid") (auto simp add: rateBooking_def respond_def)
  from assms t nf b have u: "user b = userId u" and s: "status b = Completed"
    and nr: "\<not> truthy_num (carRating b)"
    by (auto simp add: rateBooking_def respond_def split: if_splits)
  let ?rated = "b \<lparr> carRating := rCarRating body, serviceRating := rServiceRating body,
                    ratingComment := rComment body, ratedAt := Some now \<rparr>"
  from assms t nf b u s nr obtain b' st' where sv: "Booking_save tz st ?rated = Some (b', st')"
    by (cases "Booking_save tz st ?rated")
       (auto simp add: rateBooking_def respond_def serverError_def Let_def)
  from assms t nf b u s nr sv r obtain c where c: "Car_findById st (bookedCar b) = Some c"
    by (cases "Car_findById st (bookedCar b)")
       (auto simp add: rateBooking_def respond_def serverError_def Let_def)
  from assms t nf b u s nr sv r c obtain st'' where
    cs: "Car_save st' (updateRating c r) = Some st''"
    by (cases "Car_save st' (updateRating c r)")
       (auto simp add: rateBooking_def respond_def serverError_def Let_def)
  from sv have b': "st' = replaceBooking b' st" "bookingId b' = bookingId b"
      "user b' = user b" "status b' = status b" "carRating b' = rCarRating body"
    by (auto simp add: Booking_save_def preSave_def Let_def split: if_splits option.splits)
  from cs have st'': "st'' = replaceCar (updateRating c r) st'"
    by (auto simp add: Car_save_def split: if_splits)
  have "rateBooking now tz st u bid body =
             ((respond 200 True ''Booking rated successfully'') \<lparr> respBooking := Some b' \<rparr>,
              replaceCar (updateRating c r) (replaceBooking b' st))"
    using t nf b u s nr sv r c cs b'(1) st''
    by (simp add: rateBooking_def Let_def)
  then show ?thesis
    using b c r nf u s b' Booking_findById_id [OF b] by auto
qed

lemma rateBooking_already_rated:
  assumes "\<not> storeFails st" and "Booking_findById st bid = Some b"
      and "truthy_num (carRating b)"
  shows "httpStatus (fst (rateBooking now tz st u bid body)) \<noteq> 200"
    and "truthy_num (rCarRating body) \<Longrightarrow> truthy_num (rServiceRating body) \<Longrightarrow>
         user b = userId u \<Longrightarrow> status b = Completed \<Longrightarrow>
         rateBooking now tz st u bid body
           = (respond 400 False ''Booking has already been rated'', st)"
  using assms by (auto simp add: rateBooking_def respond_def)

text \<open>
  C8. After a rating that succeeded, no rating of the same booking succeeds: the
  same user, giving both ratings again, is answered that the booking has already
  been rated, and nothing is written. The successful rating increments the car's
  count and sets its average to (oldAverage * oldCount + carRating) / (oldCount + 1).
\<close>

theorem C8_rate_once_and_average:
  assumes "httpStatus (fst (rateBooking now tz st u bid body)) = 200"
  shows "(\<forall>now' u' body'.
            httpStatus (fst (rateBooking now' tz (snd (rateBooking now tz st u bid body)) u' bid body'))
              \<noteq> 200)
       \<and> (\<forall>now' body'. truthy_num (rCarRating body') \<and> truthy_num (rServiceRating body') \<longrightarrow>
            rateBooking now' tz (snd (rateBooking now tz st u bid body)) u bid body'
              = (respond 400 False ''Booking has already been rated'',
                 snd (rateBooking now tz st u bid body)))
       \<and> (\<exists>b c r. Booking_findById st bid = Some b \<and> Car_findById st (bookedCar b) = Some c
             \<and> rCarRating body = Some r
             \<and> (\<exists>c'. Car_findById (snd (rateBooking now tz st u bid body)) (bookedCar b) = Some c'
                   \<and> ratingCount c' = ratingCount c + 1
                   \<and> ratingAverage c' =
                       (ratingAverage c * of_nat (ratingCount c) + r)
                         / of_nat (ratingCount c + 1)))"
proof -
  from rateBooking_200_D [OF assms] obtain b b' c r where
    b: "Booking_findById st bid = Some b" and c: "Car_findById st (bookedCar b) = Some c"
    and r: "rCarRating body = Some r" "r \<noteq> 0" and nf: "\<not> storeFails st"
    and u: "user b = userId u" and b': "bookingId b' = bid" "user b' = user b"
      "status b' = Completed" "carRating b' = Some r"
    and eq: "rateBooking now tz st u bid body =
             ((respond 200 True ''Booking rated successfully'') \<lparr> respBooking := Some b' \<rparr>,
              replaceCar (updateRating c r) (replaceBooking b' st))"
    by blast
  let ?st' = "replaceCar (updateRating c r) (replaceBooking b' st)"
  have snd: "snd (rateBooking now tz st u bid body) = ?st'" by (simp add: eq)
  have f: "Booking_findById ?st' bid = Some b'"
    using Booking_findById_replace [OF b b'(1)] by simp
  have nf': "\<not> storeFails ?st'" using nf by simp
  have tr: "truthy_num (carRating b')" using b'(4) r(2) by (simp add: truthy_num_def)
  have 1: "httpStatus (fst (rateBooking now' tz ?st' u' bid body')) \<noteq> 200" for now' u' body'
    by (rule rateBooking_already_rated(1) [OF nf' f tr])
  have 2: "rateBooking now' tz ?st' u bid body'
              = (respond 400 False ''Booking has already been rated'', ?st')"
    if "truthy_num (rCarRating body') \<and> truthy_num (rServiceRating body')" for now' body'
    using that rateBooking_already_rated(2) [OF nf' f tr, of body' u now'] u b'(2,3) by simp
  have "carId (updateRating c r) = bookedCar b"
    using Car_findById_id [OF c] by (simp add: updateRating_def Let_def)
  then have 3: "Car_findById ?st' (bookedCar b) = Some (updateRating c r)"
    using Car_findById_replace [of "replaceBooking b' st" "bookedCar b" c "updateRating c r"] c
    by simp
  have 4: "ratingCount (updateRating c r) = ratingCount c + 1"
      "ratingAverage (updateRating c r) =
         (ratingAverage c * of_nat (ratingCount c) + r) / of_nat (ratingCount c + 1)"
    by (simp_all add: updateRating_def Let_def)
  show ?thesis
    unfolding snd using 1 2 3 4 b c r(1) by blast
qed

text \<open>
  Two completed bookings of the example car, which has no rating: the first is
  rated 4 and the second 5, and the car ends with average 4.5 and count 2; a
  second rating of the first booking is refused.
\<close>

theorem C8_rate_once_and_average_witness:
  "map (\<lambda>c. (ratingAverage c, ratingCount c))
     (cars (snd (rateBooking 0 0 (snd (rateBooking 0 0 completedStore exampleUser 1 (exampleRating 4)))
                   exampleUser 2 (exampleRating 5))))
     = [(45 / 10, 2)]
   \<and> fst (rateBooking 0 0 (snd (rateBooking 0 0 completedStore exampleUser 1 (exampleRating 4)))
            exampleUser 1 (exampleRating 5))
     = respond 400 False ''Booking has already been rated''"
proof -
  have ok: "httpStatus (fst (rateBooking 0 0 completedStore exampleUser 1 (exampleRating 4))) = 200"
    by code_simp
  have t: "truthy_num (rCarRating (exampleRating 5)) \<and> truthy_num (rServiceRating (exampleRating 5))"
    by (simp add: exampleRating_def truthy_num_def)
  have avg: "map (\<lambda>c. (ratingAverage c, ratingCount c))
     (cars (snd (rateBooking 0 0 (snd (rateBooking 0 0 completedStore exampleUser 1 (exampleRating 4)))
                   exampleUser 2 (exampleRating 5))))
     = [(45 / 10, 2)]"
    by code_simp
  show ?thesis
    using C8_rate_once_and_average [OF ok] t avg by simp
qed

end
